theory Spec2Isabelle
  imports Complex_Main "HOL-Library.Log_Nat" "HOL-Library.AList"
begin

section \<open>Python values handled by the CCXT instrument provider\<close>

text \<open>
  The provider (\<^verbatim>\<open>nautilus_trader/adapters/ccxt/providers.pyx\<close>) reads the market and
  currency dictionaries of a CCXT client. Their values are dynamically typed: a value is
  \<^verbatim>\<open>None\<close>, an integer, a float, a string or a nested dictionary. A dictionary is an
  association list in insertion order; \<^verbatim>\<open>d[k]\<close> and \<^verbatim>\<open>d.get(k)\<close> read the binding of
  \<open>k\<close>. JSON arrays and booleans do not occur in the fields the provider reads and are
  left out.

  A float is a finite IEEE-754 binary64 number, kept as the rational it denotes, or one
  of the three special values.
\<close>

datatype pyfloat = Finite rat | PosInf | NegInf | NaN

datatype pyval =
    PNone
  | PInt int
  | PFloat pyfloat
  | PStr string
  | PDict "(string \<times> pyval) list"

type_synonym pydict = "(string \<times> pyval) list"

datatype error =
    KeyError pyval
  | TypeError
  | AttributeError
  | ValueError
  | OverflowError
  | ZeroDivisionError
  | InvalidOperation
  | RuntimeError string

text \<open>\<^verbatim>\<open>d.get(k)\<close>: the value bound to \<open>k\<close>, \<^verbatim>\<open>None\<close> when there is none.\<close>

definition dict_get :: "pydict \<Rightarrow> string \<Rightarrow> pyval" where
  "dict_get d k = (case map_of d k of None \<Rightarrow> PNone | Some v \<Rightarrow> v)"

text \<open>\<^verbatim>\<open>d.get(k, default)\<close>.\<close>

definition dict_get_default :: "pydict \<Rightarrow> string \<Rightarrow> pyval \<Rightarrow> pyval" where
  "dict_get_default d k dflt = (case map_of d k of None \<Rightarrow> dflt | Some v \<Rightarrow> v)"

text \<open>\<^verbatim>\<open>d[k]\<close>: raises \<^verbatim>\<open>KeyError(k)\<close> when \<open>k\<close> is not bound.\<close>

definition dict_item :: "pydict \<Rightarrow> string \<Rightarrow> error + pyval" where
  "dict_item d k = (case map_of d k of None \<Rightarrow> Inl (KeyError (PStr k)) | Some v \<Rightarrow> Inr v)"

text \<open>
  \<^verbatim>\<open>obj.get(k)\<close> on an untyped object: only a dictionary has the method; on \<^verbatim>\<open>None\<close>,
  a number or a string the attribute lookup raises \<^verbatim>\<open>AttributeError\<close>.
\<close>

definition obj_get :: "pyval \<Rightarrow> string \<Rightarrow> error + pyval" where
  "obj_get obj k = (case obj of PDict d \<Rightarrow> Inr (dict_get d k) | _ \<Rightarrow> Inl AttributeError)"

section \<open>Binary64 arithmetic and float formatting of the Python runtime\<close>

text \<open>
  Rounding a rational to the nearest binary64 number, ties to even: the spacing of the
  doubles around \<open>q\<close> is \<open>2 ^ (e - 52)\<close> where \<open>e\<close> is the binary exponent of \<open>q\<close>, not
  below the subnormal exponent \<open>-1022\<close>. Overflow is tested by the callers.
\<close>

definition pow2 :: "int \<Rightarrow> rat" where
  "pow2 e = (if 0 \<le> e then 2 ^ nat e else 1 / 2 ^ nat (- e))"

definition pow10 :: "int \<Rightarrow> rat" where
  "pow10 e = (if 0 \<le> e then 10 ^ nat e else 1 / 10 ^ nat (- e))"

definition round_half_even :: "rat \<Rightarrow> int" where
  "round_half_even q =
     (let f = \<lfloor>q\<rfloor>; r = q - of_int f
      in if r < 1 / 2 then f else if 1 / 2 < r then f + 1 else if even f then f else f + 1)"

text \<open>\<open>ilog2 q = \<lfloor>log\<^sub>2 q\<rfloor>\<close> for \<open>q > 0\<close>, from the bit lengths of numerator and denominator.\<close>

definition ilog2 :: "rat \<Rightarrow> int" where
  "ilog2 q =
     (let e0 = bitlen (fst (quotient_of q)) - bitlen (snd (quotient_of q))
      in if q < pow2 e0 then e0 - 1 else e0)"

definition round_double :: "rat \<Rightarrow> rat" where
  "round_double q =
     (if q = 0 then 0
      else let a = \<bar>q\<bar>; e = max (ilog2 a) (- 1022); u = pow2 (e - 52)
           in sgn q * of_int (round_half_even (a / u)) * u)"

definition double_max_bound :: rat where
  "double_max_bound = 2 ^ 1024"

text \<open>
  \<^verbatim>\<open>PyLong_AsDouble\<close>: an integer converts to the nearest double, and
  \<^verbatim>\<open>OverflowError\<close> is raised when that is out of range.
\<close>

definition long_as_double :: "int \<Rightarrow> error + rat" where
  "long_as_double n =
     (let x = round_double (of_int n)
      in if double_max_bound \<le> \<bar>x\<bar> then Inl OverflowError else Inr x)"

text \<open>The decimal digits of a natural number, most significant first.\<close>

function dec_digits :: "int \<Rightarrow> nat list" where
  "dec_digits n = (if n < 10 then [nat n] else dec_digits (n div 10) @ [nat (n mod 10)])"
  by pat_completeness auto
termination
  by (relation "measure nat") auto

text \<open>
  \<open>decimal_exponent q\<close> is the position \<open>d\<close> of the decimal point of \<open>q > 0\<close>:
  \<open>10 ^ (d - 1) \<le> q < 10 ^ d\<close>.
\<close>

definition decimal_exponent :: "rat \<Rightarrow> int" where
  "decimal_exponent q =
     (let d0 = int (length (dec_digits (fst (quotient_of q))))
               - int (length (dec_digits (snd (quotient_of q))))
      in if q < pow10 d0 then d0 else d0 + 1)"

definition strip_trailing_zeros :: "nat list \<Rightarrow> nat list" where
  "strip_trailing_zeros ds = rev (dropWhile (\<lambda>d. d = 0) (rev ds))"

text \<open>
  The shortest decimal that reads back as the double \<open>x\<close> (what \<^verbatim>\<open>repr\<close> prints, David
  Gay's mode 0): with \<open>n\<close> significant digits the two neighbours of \<open>x\<close> on the grid
  \<open>10 ^ (d - n)\<close> are tried, the nearer one first and, when \<open>x\<close> lies exactly between
  them, the one with the even last digit; 17 digits always suffice.
\<close>

definition digits_candidate :: "rat \<Rightarrow> int \<Rightarrow> nat \<Rightarrow> int option" where
  "digits_candidate x d n =
     (let s = pow10 (d - int n);
          lo = \<lfloor>x / s\<rfloor>;
          ok_lo = (round_double (of_int lo * s) = x);
          ok_hi = (round_double (of_int (lo + 1) * s) = x)
      in if ok_lo \<and> ok_hi
         then (if x - of_int lo * s < of_int (lo + 1) * s - x then Some lo
               else if of_int (lo + 1) * s - x < x - of_int lo * s then Some (lo + 1)
               else if even lo then Some lo
               else Some (lo + 1))
         else if ok_lo then Some lo
         else if ok_hi then Some (lo + 1)
         else None)"

fun shortest_from :: "rat \<Rightarrow> int \<Rightarrow> nat \<Rightarrow> nat \<Rightarrow> int \<times> nat" where
  "shortest_from x d 0 n = (round_half_even (x / pow10 (d - int n)), n)"
| "shortest_from x d (Suc k) n =
     (case digits_candidate x d n of
        Some m \<Rightarrow> (m, n)
      | None \<Rightarrow> shortest_from x d k (Suc n))"

text \<open>
  \<open>float_digits x = (ds, decpt)\<close>: the digits of \<open>\<bar>x\<bar>\<close> without trailing zeros and the
  position of the decimal point, \<open>\<bar>x\<bar> = 0.ds \<times> 10 ^ decpt\<close>; zero is \<open>([0], 1)\<close>.
\<close>

definition float_digits :: "rat \<Rightarrow> nat list \<times> int" where
  "float_digits x =
     (if x = 0 then ([0], 1)
      else let a = \<bar>x\<bar>; d = decimal_exponent a;
               mn = shortest_from a d 16 1;
               ds = dec_digits (fst mn)
           in (strip_trailing_zeros ds, d + (int (length ds) - int (snd mn))))"

definition digit_char :: "nat \<Rightarrow> char" where
  "digit_char d = char_of (48 + d)"

definition zeros :: "nat \<Rightarrow> string" where
  "zeros n = replicate n (CHR ''0'')"

text \<open>The exponent suffix, C's \<^verbatim>\<open>%+.02d\<close>: a sign and at least two digits.\<close>

definition exponent_text :: "int \<Rightarrow> string" where
  "exponent_text e =
     (let ds = map digit_char (dec_digits \<bar>e\<bar>)
      in (if e < 0 then CHR ''-'' else CHR ''+'') # (if length ds < 2 then CHR ''0'' # ds else ds))"

text \<open>
  \<^verbatim>\<open>format_float_short\<close> of CPython for the format code \<^verbatim>\<open>'r'\<close> with a forced
  \<^verbatim>\<open>.0\<close>: exponent notation when \<open>decpt \<le> -4\<close> or \<open>decpt > 16\<close>, positional notation
  otherwise.
\<close>

definition format_float_short :: "nat list \<Rightarrow> int \<Rightarrow> string" where
  "format_float_short ds decpt0 =
     (let use_exp = (decpt0 \<le> - 4 \<or> 16 < decpt0);
          decpt = (if use_exp then 1 else decpt0);
          n = int (length ds);
          vend = (if use_exp then max n decpt else max n (decpt + 1));
          txt = map digit_char ds;
          left = (if decpt \<le> 0 then ''0.'' @ zeros (nat (- decpt)) else []);
          mid = (if 0 < decpt \<and> decpt \<le> n
                 then take (nat decpt) txt @ ''.'' @ drop (nat decpt) txt else txt);
          right = (if n < decpt then zeros (nat (decpt - n)) @ ''.'' @ zeros (nat (vend - decpt))
                   else zeros (nat (vend - n)));
          body = left @ mid @ right;
          body' = (if body \<noteq> [] \<and> last body = CHR ''.'' then butlast body else body)
      in if use_exp then body' @ ''e'' @ exponent_text (decpt0 - 1) else body')"

text \<open>\<^verbatim>\<open>str(x)\<close> for a float \<open>x\<close>.\<close>

definition float_str :: "pyfloat \<Rightarrow> string" where
  "float_str x =
     (case x of
        Finite q \<Rightarrow>
          (let dd = float_digits q
           in (if q < 0 then ''-'' else []) @ format_float_short (fst dd) (snd dd))
      | PosInf \<Rightarrow> ''inf''
      | NegInf \<Rightarrow> ''-inf''
      | NaN \<Rightarrow> ''nan'')"

text \<open>\<^verbatim>\<open>s.partition('.')[2]\<close>: what follows the first dot, empty when there is none.\<close>

definition after_dot :: "string \<Rightarrow> string" where
  "after_dot s = (case dropWhile (\<lambda>c. c \<noteq> CHR ''.'') s of [] \<Rightarrow> [] | _ # rest \<Rightarrow> rest)"

text \<open>\<^verbatim>\<open>s.rstrip('0')\<close>.\<close>

definition rstrip_zeros :: "string \<Rightarrow> string" where
  "rstrip_zeros s = rev (dropWhile (\<lambda>c. c = CHR ''0'') (rev s))"

section \<open>Precision resolution\<close>

text \<open>
  \<^verbatim>\<open>cdef inline int _tick_size_to_precision(self, double tick_size) except *:
      return len(str(tick_size).partition('.')[2].rstrip('0'))\<close>
\<close>

definition tick_size_to_precision :: "pyfloat \<Rightarrow> int" where
  "tick_size_to_precision tick_size = int (length (rstrip_zeros (after_dot (float_str tick_size))))"

text \<open>
  A C \<^verbatim>\<open>double\<close> parameter converts its argument with \<^verbatim>\<open>PyFloat_AsDouble\<close>: a float
  as it is, an integer through \<open>long_as_double\<close>, anything else is a \<^verbatim>\<open>TypeError\<close>.
\<close>

definition as_double :: "pyval \<Rightarrow> error + pyfloat" where
  "as_double v =
     (case v of
        PFloat f \<Rightarrow> Inr f
      | PInt n \<Rightarrow> (case long_as_double n of Inl e \<Rightarrow> Inl e | Inr x \<Rightarrow> Inr (Finite x))
      | _ \<Rightarrow> Inl TypeError)"

text \<open>
  \<^verbatim>\<open>return int(value)\<close> in a function that returns a C \<^verbatim>\<open>int\<close>, for a C double:
  Cython compiles it to the cast \<^verbatim>\<open>(int)value\<close>, truncation towards zero, which raises
  nothing. Outside the range of \<^verbatim>\<open>int\<close> (and for an infinity or a NaN) the conversion
  instruction of x86-64 yields the smallest \<^verbatim>\<open>int\<close>, \<open>- 2 ^ 31\<close>.
\<close>

definition double_to_c_int :: "pyfloat \<Rightarrow> int" where
  "double_to_c_int x =
     (case x of
        Finite q \<Rightarrow>
          (let t = (if 0 \<le> q then \<lfloor>q\<rfloor> else - \<lfloor>- q\<rfloor>)
           in if - (2 ^ 31) \<le> t \<and> t < 2 ^ 31 then t else - (2 ^ 31))
      | _ \<Rightarrow> - (2 ^ 31))"

text \<open>
  A Python integer assigned to a C \<^verbatim>\<open>int\<close>: \<^verbatim>\<open>OverflowError\<close> outside its range.
\<close>

definition as_c_int :: "int \<Rightarrow> error + int" where
  "as_c_int n = (if - (2 ^ 31) \<le> n \<and> n < 2 ^ 31 then Inr n else Inl OverflowError)"

text \<open>
  \<^verbatim>\<open>cdef inline int _get_precision(self, double value, int mode) except *:
      if mode == 2:  # DECIMAL_PLACE
          return int(value)
      elif mode == 4:  # TICK_SIZE
          return self._tick_size_to_precision(value)\<close>

  There is no \<^verbatim>\<open>else\<close>: for any other mode the C function falls off its end and
  returns the default \<open>0\<close>.
\<close>

definition get_precision :: "pyfloat \<Rightarrow> int \<Rightarrow> error + int" where
  "get_precision val mode =
     (if mode = 2 then Inr (double_to_c_int val)
      else if mode = 4 then Inr (tick_size_to_precision val)
      else Inr 0)"

section \<open>Domain objects\<close>

text \<open>
  The classes \<^verbatim>\<open>Symbol\<close>, \<^verbatim>\<open>Currency\<close>, \<^verbatim>\<open>Quantity\<close>, \<^verbatim>\<open>Price\<close>, \<^verbatim>\<open>Money\<close> and
  \<^verbatim>\<open>Instrument\<close> are imported by the provider. An object is the record of the
  arguments it was constructed from; \<^verbatim>\<open>Quantity(x)\<close> without a precision is
  \<open>Quantity x None\<close>, and a quantity built from another quantity keeps it as its
  argument. A \<^verbatim>\<open>Decimal\<close> likewise remembers what it was made of.
\<close>

record symbol =
  s_code :: string
  s_venue :: string

datatype currency_type = FIAT | CRYPTO

record currency =
  cur_code :: string
  cur_precision :: int
  cur_type :: currency_type

datatype asset_class = AssetClass_CRYPTO

datatype asset_type = UNDEFINED | AssetTypeMember string

datatype decimal =
    Decimal_default
  | Decimal_of_int int
  | Decimal_of_float pyfloat
  | Decimal_of_str string

datatype quantity =
    Quantity pyval "pyval option"
  | Quantity_of quantity "pyval option"

datatype price = Price pyval pyval

datatype money = Money pyval currency

record instrument =
  i_symbol :: symbol
  i_asset_class :: asset_class
  i_asset_type :: asset_type
  i_base_currency :: "currency option"
  i_quote_currency :: currency
  i_settlement_currency :: currency
  i_is_inverse :: bool
  i_price_precision :: pyval
  i_size_precision :: pyval
  i_tick_size :: decimal
  i_multiplier :: decimal
  i_leverage :: decimal
  i_lot_size :: quantity
  i_max_quantity :: "quantity option"
  i_min_quantity :: "quantity option"
  i_max_notional :: "money option"
  i_min_notional :: "money option"
  i_max_price :: "price option"
  i_min_price :: "price option"
  i_margin_init :: decimal
  i_margin_maint :: decimal
  i_maker_fee :: decimal
  i_taker_fee :: decimal
  i_financing :: pydict
  i_timestamp :: nat
  i_info :: pydict

text \<open>
  What the provider calls outside its own file: the canonical currency table
  \<^verbatim>\<open>Currency.from_str_c\<close> (its argument may be \<^verbatim>\<open>None\<close>), the fiat test
  \<^verbatim>\<open>Currency.is_fiat_c\<close>, \<^verbatim>\<open>AssetTypeParser.from_str\<close>, the value as a float of a
  string accepted by \<^verbatim>\<open>Decimal\<close> (\<open>None\<close> for a string it rejects), and the C library's
  power \<^verbatim>\<open>10 ** x\<close> on floats.
\<close>

record externals =
  from_str_c :: "string option \<Rightarrow> currency option"
  is_fiat_c :: "string \<Rightarrow> bool"
  asset_type_from_str :: "string \<Rightarrow> asset_type"
  decimal_literal :: "string \<Rightarrow> pyfloat option"
  pow_10 :: "pyfloat \<Rightarrow> error + pyfloat"

text \<open>\<^verbatim>\<open>Decimal(v)\<close> for a value that is not \<^verbatim>\<open>None\<close>-checked by the constructor.\<close>

definition make_decimal :: "externals \<Rightarrow> pyval \<Rightarrow> error + decimal" where
  "make_decimal ext v =
     (case v of
        PInt n \<Rightarrow> Inr (Decimal_of_int n)
      | PFloat f \<Rightarrow> Inr (Decimal_of_float f)
      | PStr s \<Rightarrow> (case decimal_literal ext s of
                     None \<Rightarrow> Inl InvalidOperation
                   | Some _ \<Rightarrow> Inr (Decimal_of_str s))
      | _ \<Rightarrow> Inl TypeError)"

text \<open>
  \<^verbatim>\<open>float(d)\<close> for a \<^verbatim>\<open>Decimal\<close>, which is how it is passed to a C \<^verbatim>\<open>double\<close>
  parameter: the nearest double, an infinity when out of range.
\<close>

definition decimal_as_double :: "externals \<Rightarrow> decimal \<Rightarrow> pyfloat" where
  "decimal_as_double ext d =
     (case d of
        Decimal_default \<Rightarrow> Finite 0
      | Decimal_of_int n \<Rightarrow>
          (let x = round_double (of_int n)
           in if double_max_bound \<le> \<bar>x\<bar> then (if 0 < x then PosInf else NegInf) else Finite x)
      | Decimal_of_float f \<Rightarrow> f
      | Decimal_of_str s \<Rightarrow> (case decimal_literal ext s of None \<Rightarrow> NaN | Some f \<Rightarrow> f))"

text \<open>
  \<^verbatim>\<open>'%.<p>f' % x\<close>: \<open>x\<close> rounded correctly (ties to even) to \<open>p\<close> fractional digits.
\<close>

definition format_fixed :: "rat \<Rightarrow> nat \<Rightarrow> string" where
  "format_fixed x p =
     (let n = round_half_even (\<bar>x\<bar> * 10 ^ p);
          whole = map digit_char (dec_digits (n div 10 ^ p));
          frac = map digit_char (dec_digits (n mod 10 ^ p))
      in (if x < 0 then ''-'' else []) @ whole
         @ (if p = 0 then [] else ''.'' @ zeros (p - length frac) @ frac))"

text \<open>\<^verbatim>\<open>s.upper()\<close> on ASCII letters.\<close>

definition char_upper :: "char \<Rightarrow> char" where
  "char_upper c =
     (let n = of_char c :: nat in if 97 \<le> n \<and> n \<le> 122 then char_of (n - 32) else c)"

definition str_upper :: "string \<Rightarrow> string" where
  "str_upper s = map char_upper s"

section \<open>The provider and its client\<close>

text \<open>
  The CCXT client supplies its name, its precision mode (\<open>2\<close> is \<^verbatim>\<open>DECIMAL_PLACES\<close>,
  \<open>3\<close> is \<^verbatim>\<open>SIGNIFICANT_DIGITS\<close>, \<open>4\<close> is \<^verbatim>\<open>TICK_SIZE\<close>) and the market and currency
  dictionaries. The provider keeps \<^verbatim>\<open>_currencies\<close> and \<^verbatim>\<open>_instruments\<close>; the
  instrument dictionary is an object in the store, the provider holds its address.
  A Python dictionary assigns in place when the key is bound and appends otherwise,
  which is \<open>AList.update\<close>.
\<close>

record client =
  c_name :: string
  c_precisionMode :: int
  c_markets :: pydict
  c_currencies :: pydict

record provider =
  p_venue :: string
  p_count :: int
  p_client :: client
  p_currencies :: "(string \<times> currency) list"
  p_instruments :: nat

record store =
  cells :: "nat \<Rightarrow> (string \<times> instrument) list"
  next_free :: nat

definition bind_err :: "error + 'a \<Rightarrow> ('a \<Rightarrow> error + 'b) \<Rightarrow> error + 'b" where
  "bind_err m f = (case m of Inl e \<Rightarrow> Inl e | Inr x \<Rightarrow> f x)"

section \<open>Building one instrument\<close>

text \<open>
  \<^verbatim>\<open>tick_size = Decimal(f"{1.0 / 10 ** price_precision:.{price_precision}f}")\<close>

  For an integer \<open>p \<ge> 0\<close> the power is an integer, converted to a double for the float
  division (the divisor is at least \<open>1\<close>, so the quotient is a finite double), and the
  quotient is printed with \<open>p\<close> fractional digits. A negative integer or a float makes
  the power a float and the format specification invalid; \<^verbatim>\<open>None\<close>, a string or a
  dictionary cannot be an exponent.
\<close>

definition tick_size_text :: "externals \<Rightarrow> pyval \<Rightarrow> error + string" where
  "tick_size_text ext price_precision =
     (case price_precision of
        PInt p \<Rightarrow>
          (if 0 \<le> p
           then bind_err (long_as_double (10 ^ nat p))
                  (\<lambda>y. Inr (format_fixed (round_double (1 / y)) (nat p)))
           else bind_err (long_as_double p)
                  (\<lambda>x. bind_err (pow_10 ext (Finite x))
                    (\<lambda>y. if y = Finite 0 then Inl ZeroDivisionError else Inl ValueError)))
      | PFloat f \<Rightarrow>
          bind_err (pow_10 ext f)
            (\<lambda>y. if y = Finite 0 then Inl ZeroDivisionError else Inl ValueError)
      | _ \<Rightarrow> Inl TypeError)"

text \<open>\<^verbatim>\<open>cdef dict precisions = values["precision"]\<close>: a dictionary or \<^verbatim>\<open>None\<close>.\<close>

definition typed_dict :: "pyval \<Rightarrow> error + pydict option" where
  "typed_dict v = (case v of PDict d \<Rightarrow> Inr (Some d) | PNone \<Rightarrow> Inr None | _ \<Rightarrow> Inl TypeError)"

definition unsupported_mode_message :: "string \<Rightarrow> string" where
  "unsupported_mode_message nm =
     ''The '' @ nm @ '' exchange is using SIGNIFICANT_DIGITS precision which is not ''
     @ ''currently supported in this version.''"

text \<open>
  Lines 164 to 179 of \<^verbatim>\<open>_parse_instrument\<close>: the price precision, the size precision
  and the tick size.
\<close>

definition parse_precisions ::
  "externals \<Rightarrow> client \<Rightarrow> pydict \<Rightarrow> error + (pyval \<times> pyval \<times> decimal)" where
  "parse_precisions ext c values =
     bind_err (dict_item values ''precision'') (\<lambda>pv.
     bind_err (typed_dict pv) (\<lambda>precisions.
       if c_precisionMode c = 2 then
         (case precisions of
            None \<Rightarrow> Inl AttributeError
          | Some d \<Rightarrow>
              (let price_precision = dict_get d ''price'';
                   size_precision = dict_get_default d ''amount'' (PInt 8)
               in bind_err (tick_size_text ext price_precision) (\<lambda>txt.
                    Inr (price_precision, size_precision, Decimal_of_str txt))))
       else if c_precisionMode c = 4 then
         (case precisions of
            None \<Rightarrow> Inl AttributeError
          | Some d \<Rightarrow>
              bind_err (make_decimal ext (dict_get d ''price'')) (\<lambda>tick_size.
                (let price_precision = tick_size_to_precision (decimal_as_double ext tick_size);
                     amount = dict_get d ''amount'';
                     size_precision = (if amount = PNone then PInt 0 else amount)
                 in bind_err (as_double size_precision) (\<lambda>x.
                      Inr (PInt price_precision, PInt (tick_size_to_precision x), tick_size)))))
       else Inl (RuntimeError (unsupported_mode_message (c_name c)))))"

text \<open>Lines 181 to 185: the asset type.\<close>

definition parse_asset_type :: "externals \<Rightarrow> pydict \<Rightarrow> error + asset_type" where
  "parse_asset_type ext values =
     (case dict_get values ''type'' of
        PNone \<Rightarrow> Inr UNDEFINED
      | PStr s \<Rightarrow> Inr (asset_type_from_str ext (str_upper s))
      | _ \<Rightarrow> Inl AttributeError)"

text \<open>
  \<^verbatim>\<open>cur = Currency.from_str_c(code)
  if cur is None:
      cur = self._currencies[code]\<close>

  The subscript raises \<^verbatim>\<open>KeyError(code)\<close> when the cache has no such code.
\<close>

definition currency_from_code ::
  "externals \<Rightarrow> (string \<times> currency) list \<Rightarrow> pyval \<Rightarrow> error + currency" where
  "currency_from_code ext cache v =
     (case v of
        PStr c \<Rightarrow>
          (case from_str_c ext (Some c) of
             Some cur \<Rightarrow> Inr cur
           | None \<Rightarrow> (case map_of cache c of
                        Some cur \<Rightarrow> Inr cur
                      | None \<Rightarrow> Inl (KeyError (PStr c))))
      | PNone \<Rightarrow>
          (case from_str_c ext None of
             Some cur \<Rightarrow> Inr cur
           | None \<Rightarrow> Inl (KeyError PNone))
      | _ \<Rightarrow> Inl TypeError)"

text \<open>Lines 187 to 191: the base currency, read only when the market names one.\<close>

definition resolve_base_currency ::
  "externals \<Rightarrow> (string \<times> currency) list \<Rightarrow> pydict \<Rightarrow> error + currency option" where
  "resolve_base_currency ext cache values =
     (if dict_get values ''base'' = PNone then Inr None
      else bind_err (dict_item values ''base'') (\<lambda>b.
           bind_err (currency_from_code ext cache b) (\<lambda>cur. Inr (Some cur))))"

text \<open>Lines 193 to 195: the quote currency.\<close>

definition resolve_quote_currency ::
  "externals \<Rightarrow> (string \<times> currency) list \<Rightarrow> pydict \<Rightarrow> error + currency" where
  "resolve_quote_currency ext cache values =
     bind_err (dict_item values ''quote'') (\<lambda>q. currency_from_code ext cache q)"

text \<open>\<^verbatim>\<open>values["limits"].get(block).get(field)\<close>\<close>

definition limit_value :: "pydict \<Rightarrow> string \<Rightarrow> string \<Rightarrow> error + pyval" where
  "limit_value values block field =
     bind_err (dict_item values ''limits'') (\<lambda>limits.
     bind_err (obj_get limits block) (\<lambda>b. obj_get b field))"

text \<open>\<^verbatim>\<open>values["info"].get("lotSize")\<close>\<close>

definition info_lot_size :: "pydict \<Rightarrow> error + pyval" where
  "info_lot_size values = bind_err (dict_item values ''info'') (\<lambda>info. obj_get info ''lotSize'')"

text \<open>Lines 205 to 211: the lot size.\<close>

definition choose_lot_size :: "pyval \<Rightarrow> quantity option \<Rightarrow> pyval \<Rightarrow> quantity" where
  "choose_lot_size lot_size min_quantity size_precision =
     (if lot_size \<noteq> PNone then Quantity lot_size None
      else (case min_quantity of
              Some mq \<Rightarrow> Quantity_of mq (Some size_precision)
            | None \<Rightarrow> Quantity (PInt 1) None))"

text \<open>Lines 229 to 239: a fee, \<^verbatim>\<open>Decimal()\<close> when the market has none.\<close>

definition parse_fee :: "externals \<Rightarrow> pydict \<Rightarrow> string \<Rightarrow> error + decimal" where
  "parse_fee ext values k =
     (if dict_get values k = PNone then Inr Decimal_default
      else make_decimal ext (dict_get values k))"

definition opt_quantity :: "pyval \<Rightarrow> pyval \<Rightarrow> quantity option" where
  "opt_quantity v size_precision = (if v = PNone then None else Some (Quantity v (Some size_precision)))"

definition opt_money :: "pyval \<Rightarrow> currency \<Rightarrow> money option" where
  "opt_money v cur = (if v = PNone then None else Some (Money v cur))"

definition opt_price :: "pyval \<Rightarrow> pyval \<Rightarrow> price option" where
  "opt_price v price_precision = (if v = PNone then None else Some (Price v price_precision))"

text \<open>
  \<^verbatim>\<open>cdef Instrument _parse_instrument(self, Symbol symbol, dict values)\<close>, statement by
  statement; \<open>now\<close> is the reading of \<^verbatim>\<open>datetime.utcnow()\<close>.
\<close>

definition parse_instrument ::
  "externals \<Rightarrow> provider \<Rightarrow> symbol \<Rightarrow> pydict \<Rightarrow> nat \<Rightarrow> error + instrument" where
  "parse_instrument ext self symbol values now =
     bind_err (parse_precisions ext (p_client self) values) (\<lambda>(price_precision, size_precision, tick_size).
     bind_err (parse_asset_type ext values) (\<lambda>asset_type.
     bind_err (resolve_base_currency ext (p_currencies self) values) (\<lambda>base_currency.
     bind_err (resolve_quote_currency ext (p_currencies self) values) (\<lambda>quote_currency.
     bind_err (limit_value values ''amount'' ''max'') (\<lambda>max_quantity.
     bind_err (limit_value values ''amount'' ''min'') (\<lambda>min_quantity.
     bind_err (info_lot_size values) (\<lambda>lot_size.
     bind_err (limit_value values ''cost'' ''max'') (\<lambda>max_notional.
     bind_err (limit_value values ''cost'' ''min'') (\<lambda>min_notional.
     bind_err (limit_value values ''cost'' ''max'') (\<lambda>max_price.
     bind_err (limit_value values ''cost'' ''min'') (\<lambda>min_price.
     bind_err (parse_fee ext values ''maker'') (\<lambda>maker_fee.
     bind_err (parse_fee ext values ''taker'') (\<lambda>taker_fee.
       Inr \<lparr> i_symbol = symbol,
             i_asset_class = AssetClass_CRYPTO,
             i_asset_type = asset_type,
             i_base_currency = base_currency,
             i_quote_currency = quote_currency,
             i_settlement_currency = quote_currency,
             i_is_inverse = False,
             i_price_precision = price_precision,
             i_size_precision = size_precision,
             i_tick_size = tick_size,
             i_multiplier = Decimal_of_int 1,
             i_leverage = Decimal_of_int 1,
             i_lot_size = choose_lot_size lot_size
                            (opt_quantity min_quantity size_precision) size_precision,
             i_max_quantity = opt_quantity max_quantity size_precision,
             i_min_quantity = opt_quantity min_quantity size_precision,
             i_max_notional = opt_money max_notional quote_currency,
             i_min_notional = opt_money min_notional quote_currency,
             i_max_price = opt_price max_price price_precision,
             i_min_price = opt_price min_price price_precision,
             i_margin_init = Decimal_default,
             i_margin_maint = Decimal_default,
             i_maker_fee = maker_fee,
             i_taker_fee = taker_fee,
             i_financing = [],
             i_timestamp = now,
             i_info = values \<rparr>)))))))))))))"

section \<open>Loading\<close>

text \<open>
  \<^verbatim>\<open>cdef inline CurrencyType _parse_currency_type(self, str code):
      return CurrencyType.FIAT if Currency.is_fiat_c(code) else CurrencyType.CRYPTO\<close>
\<close>

definition parse_currency_type :: "externals \<Rightarrow> string \<Rightarrow> currency_type" where
  "parse_currency_type ext code = (if is_fiat_c ext code then FIAT else CRYPTO)"

text \<open>
  The body of the loop of \<^verbatim>\<open>_load_currencies\<close>: \<^verbatim>\<open>values\<close> is typed \<^verbatim>\<open>dict\<close>, and
  \<^verbatim>\<open>values["precision"]\<close> on \<^verbatim>\<open>None\<close> is a \<^verbatim>\<open>TypeError\<close>.
\<close>

definition parse_currency :: "externals \<Rightarrow> int \<Rightarrow> string \<Rightarrow> pyval \<Rightarrow> error + currency" where
  "parse_currency ext precision_mode code v =
     bind_err (typed_dict v) (\<lambda>values.
       (let currency_type = parse_currency_type ext code
        in case values of
             None \<Rightarrow> Inl TypeError
           | Some d \<Rightarrow>
               bind_err (dict_item d ''precision'') (\<lambda>pv.
               bind_err (as_double pv) (\<lambda>x.
               bind_err (get_precision x precision_mode) (\<lambda>prec.
                 Inr \<lparr> cur_code = code, cur_precision = prec, cur_type = currency_type \<rparr>)))))"

fun load_currencies_loop ::
  "externals \<Rightarrow> int \<Rightarrow> pydict \<Rightarrow> (string \<times> currency) list
     \<Rightarrow> error option \<times> (string \<times> currency) list" where
  "load_currencies_loop ext precision_mode [] cache = (None, cache)"
| "load_currencies_loop ext precision_mode ((code, v) # rest) cache =
     (case parse_currency ext precision_mode code v of
        Inl e \<Rightarrow> (Some e, cache)
      | Inr cur \<Rightarrow> load_currencies_loop ext precision_mode rest (AList.update code cur cache))"

text \<open>
  \<^verbatim>\<open>cdef void _load_currencies(self) except *\<close>: the mode is first stored in a C
  \<^verbatim>\<open>int\<close> (\<^verbatim>\<open>cdef int precision_mode = self._client.precisionMode\<close>), then the loop
  runs. The result is the exception raised, if any, and the provider as it is then.
\<close>

definition load_currencies :: "externals \<Rightarrow> provider \<Rightarrow> error option \<times> provider" where
  "load_currencies ext self =
     (case as_c_int (c_precisionMode (p_client self)) of
        Inl e \<Rightarrow> (Some e, self)
      | Inr precision_mode \<Rightarrow>
          (case load_currencies_loop ext precision_mode
                  (c_currencies (p_client self)) (p_currencies self) of
             (r, cache) \<Rightarrow> (r, self\<lparr>p_currencies := cache\<rparr>)))"

text \<open>
  One market of \<^verbatim>\<open>_load_instruments\<close>: \<^verbatim>\<open>v\<close> is typed \<^verbatim>\<open>dict\<close>; passing \<^verbatim>\<open>None\<close>
  on makes \<^verbatim>\<open>values["precision"]\<close> a \<^verbatim>\<open>TypeError\<close>.
\<close>

definition parse_market ::
  "externals \<Rightarrow> provider \<Rightarrow> symbol \<Rightarrow> pyval \<Rightarrow> nat \<Rightarrow> error + instrument" where
  "parse_market ext self symbol v now =
     bind_err (typed_dict v) (\<lambda>values.
       case values of
         None \<Rightarrow> Inl TypeError
       | Some d \<Rightarrow> parse_instrument ext self symbol d now)"

definition set_instrument :: "provider \<Rightarrow> string \<Rightarrow> instrument \<Rightarrow> store \<Rightarrow> store" where
  "set_instrument self k inst h =
     h\<lparr>cells := (cells h)(p_instruments self := AList.update k inst (cells h (p_instruments self)))\<rparr>"

text \<open>
  The loop of \<^verbatim>\<open>_load_instruments\<close>. The \<open>i\<close>-th market is stamped with the clock
  reading \<open>clock i\<close>. An exception leaves the loop with the store as it is then.
\<close>

fun load_instruments_loop ::
  "externals \<Rightarrow> provider \<Rightarrow> (nat \<Rightarrow> nat) \<Rightarrow> nat \<Rightarrow> pydict \<Rightarrow> store \<Rightarrow> error option \<times> store" where
  "load_instruments_loop ext self clock i [] h = (None, h)"
| "load_instruments_loop ext self clock i ((k, v) # rest) h =
     (let symbol = \<lparr> s_code = k, s_venue = p_venue self \<rparr>
      in case parse_market ext self symbol v (clock i) of
           Inl e \<Rightarrow> (Some e, h)
         | Inr inst \<Rightarrow>
             load_instruments_loop ext self clock (Suc i) rest
               (set_instrument self (s_code symbol) inst h))"

text \<open>
  \<^verbatim>\<open>cdef void _load_instruments(self) except *\<close>: \<^verbatim>\<open>count\<close> is set only when the loop
  has finished.
\<close>

definition load_instruments ::
  "externals \<Rightarrow> (nat \<Rightarrow> nat) \<Rightarrow> store \<Rightarrow> provider \<Rightarrow> error option \<times> store \<times> provider" where
  "load_instruments ext clock h self =
     (case load_instruments_loop ext self clock 0 (c_markets (p_client self)) h of
        (Some e, h') \<Rightarrow> (Some e, h', self)
      | (None, h') \<Rightarrow>
          (None, h', self\<lparr>p_count := int (length (cells h' (p_instruments self)))\<rparr>))"

text \<open>
  \<^verbatim>\<open>cpdef void load_all(self) except *\<close>. \<^verbatim>\<open>self._client.load_markets(reload=True)\<close>
  is the network: \<open>fetched\<close> is either the exception it raises or the client with its
  fresh market and currency dictionaries.
\<close>

definition load_all ::
  "externals \<Rightarrow> (nat \<Rightarrow> nat) \<Rightarrow> error + client \<Rightarrow> store \<Rightarrow> provider
     \<Rightarrow> error option \<times> store \<times> provider" where
  "load_all ext clock fetched h self =
     (case fetched of
        Inl e \<Rightarrow> (Some e, h, self)
      | Inr c \<Rightarrow>
          (case load_currencies ext (self\<lparr>p_client := c\<rparr>) of
             (Some e, self') \<Rightarrow> (Some e, h, self')
           | (None, self') \<Rightarrow> load_instruments ext clock h self'))"

section \<open>Accessors\<close>

text \<open>
  \<^verbatim>\<open>cpdef dict get_all(self): return self._instruments.copy()\<close>: a new dictionary object
  with the same bindings; its address is returned.
\<close>

definition get_all :: "store \<Rightarrow> provider \<Rightarrow> nat \<times> store" where
  "get_all h self =
     (let a = next_free h
      in (a, h\<lparr>cells := (cells h)(a := cells h (p_instruments self)), next_free := Suc a\<rparr>))"

text \<open>\<^verbatim>\<open>cpdef Instrument get(self, Symbol symbol): return self._instruments.get(symbol.code)\<close>\<close>

definition get :: "store \<Rightarrow> provider \<Rightarrow> symbol \<Rightarrow> instrument option" where
  "get h self symbol = map_of (cells h (p_instruments self)) (s_code symbol)"

text \<open>\<^verbatim>\<open>cdef Instrument get_c(self, str symbol_code)\<close>\<close>

definition get_c :: "store \<Rightarrow> provider \<Rightarrow> string \<Rightarrow> instrument option" where
  "get_c h self symbol_code = map_of (cells h (p_instruments self)) symbol_code"

text \<open>\<^verbatim>\<open>cpdef Currency currency(self, str code): return self._currencies.get(code)\<close>\<close>

definition currency :: "provider \<Rightarrow> string \<Rightarrow> currency option" where
  "currency self code = map_of (p_currencies self) code"

text \<open>
  \<^verbatim>\<open>__init__\<close>: the venue is the upper-cased client name, both dictionaries start
  empty, the instrument dictionary is a new object of the store, and \<^verbatim>\<open>load_all\<close> is
  called when asked for.
\<close>

definition init ::
  "externals \<Rightarrow> (nat \<Rightarrow> nat) \<Rightarrow> error + client \<Rightarrow> store \<Rightarrow> client \<Rightarrow> bool
     \<Rightarrow> error option \<times> store \<times> provider" where
  "init ext clock fetched h c load_all_flag =
     (let a = next_free h;
          h' = h\<lparr>cells := (cells h)(a := []), next_free := Suc a\<rparr>;
          self = \<lparr> p_venue = str_upper (c_name c), p_count = 0, p_client = c,
                   p_currencies = [], p_instruments = a \<rparr>
      in if load_all_flag then load_all ext clock fetched h' self else (None, h', self))"

text \<open>
  A caller that holds the address \<open>r\<close> of a dictionary may change it in any way: \<open>f\<close> is
  the change of its bindings (adding, removing, replacing entries).
\<close>

definition mutate :: "nat \<Rightarrow> ((string \<times> instrument) list \<Rightarrow> (string \<times> instrument) list) \<Rightarrow> store \<Rightarrow> store" where
  "mutate r f h = h\<lparr>cells := (cells h)(r := f (cells h r))\<rparr>"

section \<open>The specification's reading of a tick size\<close>

text \<open>
  The specification defines the precision of a tick size as the number of fractional
  digits, trailing zeros not counted, of the value written in fixed-point form. With
  the digits \<open>ds\<close> of the value (no trailing zeros) and the decimal point at \<open>decpt\<close>
  that number is \<open>length ds - decpt\<close>, or \<open>0\<close> when the value is an integer.
\<close>

definition fixed_point_fraction_digits :: "pyfloat \<Rightarrow> int" where
  "fixed_point_fraction_digits x =
     (case x of
        Finite q \<Rightarrow> (let dd = float_digits q in max 0 (int (length (fst dd)) - snd dd))
      | _ \<Rightarrow> 0)"

section \<open>Example data\<close>

text \<open>
  A canonical currency table that knows BTC only, a provider for a TICK_SIZE venue whose
  cache holds USDT, and some raw markets: a complete one quoted in ticks of \<open>0.5\<close> with
  an explicit lot size, one without lot size, one with neither lot size nor minimum,
  one whose base currency nobody knows, one whose quote currency nobody knows, one
  without precision block, and one whose limits lack the amount block. The examples
  never raise ten to a float power.
\<close>

definition btc :: currency where
  "btc = \<lparr> cur_code = ''BTC'', cur_precision = 8, cur_type = CRYPTO \<rparr>"

definition usdt :: currency where
  "usdt = \<lparr> cur_code = ''USDT'', cur_precision = 2, cur_type = CRYPTO \<rparr>"

definition example_externals :: externals where
  "example_externals =
     \<lparr> from_str_c = (\<lambda>c. if c = Some ''BTC'' then Some btc else None),
       is_fiat_c = (\<lambda>c. c = ''USD''),
       asset_type_from_str = (\<lambda>s. if s = ''SPOT'' then AssetTypeMember ''SPOT'' else UNDEFINED),
       decimal_literal = (\<lambda>s. None),
       pow_10 = (\<lambda>x. Inl OverflowError) \<rparr>"

definition example_limits :: "pyval \<Rightarrow> pyval" where
  "example_limits min_amount =
     PDict [(''amount'', PDict [(''min'', min_amount), (''max'', PInt 1000)]),
            (''cost'', PDict [(''min'', PInt 10)])]"

definition example_precision :: pyval where
  "example_precision = PDict [(''price'', PFloat (Finite (1 / 2))), (''amount'', PInt 1)]"

definition market_lot :: pydict where
  "market_lot =
     [(''precision'', example_precision), (''limits'', example_limits (PInt 5)),
      (''type'', PStr ''spot''), (''base'', PStr ''BTC''), (''quote'', PStr ''USDT''),
      (''info'', PDict [(''lotSize'', PInt 100)])]"

definition market_coarse :: pydict where
  "market_coarse =
     [(''precision'', PDict [(''price'', PInt 5), (''amount'', PFloat (Finite (1 / 4)))]),
      (''limits'', example_limits (PInt 5)),
      (''base'', PStr ''BTC''), (''quote'', PStr ''USDT''),
      (''info'', PDict [(''lotSize'', PInt 100)])]"

definition market_min :: pydict where
  "market_min =
     [(''precision'', example_precision), (''limits'', example_limits (PInt 5)),
      (''base'', PStr ''BTC''), (''quote'', PStr ''USDT''), (''info'', PDict [])]"

definition market_unit :: pydict where
  "market_unit =
     [(''precision'', example_precision), (''limits'', example_limits PNone),
      (''quote'', PStr ''USDT''), (''info'', PDict [])]"

definition market_unknown_base :: pydict where
  "market_unknown_base =
     [(''precision'', example_precision), (''limits'', example_limits (PInt 5)),
      (''base'', PStr ''DOGE''), (''quote'', PStr ''USDT''), (''info'', PDict [])]"

definition market_unknown_quote :: pydict where
  "market_unknown_quote =
     [(''precision'', example_precision), (''limits'', example_limits (PInt 5)),
      (''base'', PStr ''BTC''), (''quote'', PStr ''XYZ''), (''info'', PDict [])]"

definition market_no_precision :: pydict where
  "market_no_precision =
     [(''limits'', example_limits (PInt 5)),
      (''base'', PStr ''BTC''), (''quote'', PStr ''USDT''), (''info'', PDict [])]"

definition market_no_amount :: pydict where
  "market_no_amount =
     [(''precision'', example_precision), (''limits'', PDict [(''cost'', PDict [])]),
      (''base'', PStr ''BTC''), (''quote'', PStr ''USDT''), (''info'', PDict [])]"

definition example_client :: client where
  "example_client =
     \<lparr> c_name = ''Binance'', c_precisionMode = 4,
       c_markets = [(''BTC/USDT'', PDict market_min), (''ETH/USDT'', PDict market_no_precision)],
       c_currencies = [(''USDT'', PDict [(''precision'', PFloat (Finite (1 / 4)))])] \<rparr>"

definition example_provider :: provider where
  "example_provider =
     \<lparr> p_venue = ''BINANCE'', p_count = 1, p_client = example_client,
       p_currencies = [(''USDT'', usdt)], p_instruments = 0 \<rparr>"

definition example_symbol :: symbol where
  "example_symbol = \<lparr> s_code = ''BTC/USDT'', s_venue = ''BINANCE'' \<rparr>"

text \<open>
  A store in which the provider's dictionary (at address \<open>0\<close>) already holds two
  instruments built earlier from \<open>market_lot\<close>, a clock that starts at \<open>7\<close>, and a
  client whose reloaded market set has shrunk to the one good market.
\<close>

definition old_instrument :: instrument where
  "old_instrument =
     projr (parse_instrument example_externals example_provider example_symbol market_lot 3)"

definition example_store :: store where
  "example_store =
     \<lparr> cells = (\<lambda>a. if a = 0 then [(''BTC/USDT'', old_instrument), (''LTC/USDT'', old_instrument)]
                     else []),
       next_free = 1 \<rparr>"

definition example_clock :: "nat \<Rightarrow> nat" where
  "example_clock i = 7 + i"

definition reloaded_client :: client where
  "reloaded_client = example_client\<lparr>c_markets := [(''BTC/USDT'', PDict market_min)]\<rparr>"

text \<open>
  The same venue reporting decimal places: a market priced to two places, and one that
  claims 309 places.
\<close>

definition decimal_places_provider :: provider where
  "decimal_places_provider =
     example_provider\<lparr>p_client := example_client\<lparr>c_precisionMode := 2\<rparr>\<rparr>"

definition market_places :: "int \<Rightarrow> pydict" where
  "market_places p =
     [(''precision'', PDict [(''price'', PInt p), (''amount'', PInt 0)]),
      (''limits'', example_limits (PInt 1)),
      (''base'', PStr ''BTC''), (''quote'', PStr ''USDT''), (''info'', PDict [])]"

text \<open>
  A decimal-places client whose one currency reports a precision beyond the range of a
  C \<^verbatim>\<open>int\<close>, with one market priced to two places.
\<close>

definition wide_precision_client :: client where
  "wide_precision_client =
     \<lparr> c_name = ''Binance'', c_precisionMode = 2,
       c_markets = [(''BTC/USDT'', PDict (market_places 2))],
       c_currencies = [(''USDT'', PDict [(''precision'', PInt 3000000000)])] \<rparr>"

section \<open>Notions used by the properties\<close>

text \<open>
  A currency code is unresolved when neither the canonical table nor the provider's
  cache knows it.
\<close>

definition unresolved :: "externals \<Rightarrow> (string \<times> currency) list \<Rightarrow> string \<Rightarrow> bool" where
  "unresolved ext cache c \<longleftrightarrow> from_str_c ext (Some c) = None \<and> map_of cache c = None"

definition succeeds :: "error + 'a \<Rightarrow> bool" where
  "succeeds m = (case m of Inl _ \<Rightarrow> False | Inr _ \<Rightarrow> True)"

text \<open>The statements of \<^verbatim>\<open>_parse_instrument\<close> before the first read of the limits.\<close>

definition steps_before_limits_pass :: "externals \<Rightarrow> provider \<Rightarrow> pydict \<Rightarrow> bool" where
  "steps_before_limits_pass ext self values \<longleftrightarrow>
     succeeds (parse_precisions ext (p_client self) values)
   \<and> succeeds (parse_asset_type ext values)
   \<and> succeeds (resolve_base_currency ext (p_currencies self) values)
   \<and> succeeds (resolve_quote_currency ext (p_currencies self) values)"

text \<open>
  A caller that reloads several times: each load has its own clock readings and its own
  answer from the network; a failed load does not stop the caller from loading again.
\<close>

fun load_all_seq ::
  "externals \<Rightarrow> ((nat \<Rightarrow> nat) \<times> (error + client)) list \<Rightarrow> store \<Rightarrow> provider \<Rightarrow> store \<times> provider" where
  "load_all_seq ext [] h self = (h, self)"
| "load_all_seq ext ((clock, fetched) # rest) h self =
     (case load_all ext clock fetched h self of
        (r, h', self') \<Rightarrow> load_all_seq ext rest h' self')"

text \<open>The symbol codes a provider has cached.\<close>

definition instrument_keys :: "store \<Rightarrow> provider \<Rightarrow> string set" where
  "instrument_keys h self = fst ` set (cells h (p_instruments self))"

definition currency_keys :: "provider \<Rightarrow> string set" where
  "currency_keys self = fst ` set (p_currencies self)"

section \<open>Properties\<close>

lemma bind_err_Inl [simp]: "bind_err (Inl e) f = Inl e"
  by (simp add: bind_err_def)

lemma bind_err_Inr [simp]: "bind_err (Inr x) f = f x"
  by (simp add: bind_err_def)

lemma bind_err_eq_Inr:
  "bind_err m f = Inr y \<longleftrightarrow> (\<exists>x. m = Inr x \<and> f x = Inr y)"
  by (cases m) simp_all

subsection \<open>Tick sizes below one ten-thousandth\<close>

lemma double_1e_5: "round_double (1 / 100000) = 5902958103587057 / 590295810358705651712"
  by code_simp

lemma float_digits_1e_5: "float_digits (5902958103587057 / 590295810358705651712) = ([1], - 4)"
  by code_simp

lemma float_str_1e_5: "float_str (Finite (5902958103587057 / 590295810358705651712)) = ''1e-05''"
  by code_simp

text \<open>
  C1. The claim: for every positive tick value, also below \<open>1e-4\<close>, the TICK_SIZE
  precision is the number of fractional digits of the value in fixed-point form. The
  double \<open>0.00001\<close> has five such digits, but \<^verbatim>\<open>str\<close> prints it as \<^verbatim>\<open>1e-05\<close>, which has
  no dot, and \<^verbatim>\<open>_tick_size_to_precision\<close> (and \<^verbatim>\<open>_get_precision\<close> in mode 4) returns 0.
\<close>

theorem tick_size_to_precision_exponent_notation:
  "tick_size_to_precision (Finite (round_double (1 / 100000))) = 0
   \<and> get_precision (Finite (round_double (1 / 100000))) 4 = Inr 0
   \<and> fixed_point_fraction_digits (Finite (round_double (1 / 100000))) = 5"
proof -
  have s: "float_str (Finite (round_double (1 / 100000))) = ''1e-05''"
    by (simp only: double_1e_5 float_str_1e_5)
  have t: "tick_size_to_precision (Finite (round_double (1 / 100000))) = 0"
    unfolding tick_size_to_precision_def s by (simp add: after_dot_def rstrip_zeros_def)
  have f: "fixed_point_fraction_digits (Finite (round_double (1 / 100000))) = 5"
    unfolding fixed_point_fraction_digits_def by (simp add: double_1e_5 float_digits_1e_5)
  show ?thesis
    using t f by (simp add: get_precision_def)
qed

subsection \<open>Tick sizes printed positionally\<close>

lemma of_char_digit: "d < 10 \<Longrightarrow> of_char (digit_char d) = 48 + d"
  by (simp add: digit_char_def)

lemma digit_char_not_dot: "d < 10 \<Longrightarrow> digit_char d \<noteq> CHR ''.''"
proof
  assume "d < 10" and "digit_char d = CHR ''.''"
  then have "(of_char (digit_char d) :: nat) = of_char (CHR ''.'')" by simp
  with \<open>d < 10\<close> show False by (simp add: of_char_digit)
qed

lemma digit_char_not_zero: "d < 10 \<Longrightarrow> d \<noteq> 0 \<Longrightarrow> digit_char d \<noteq> CHR ''0''"
proof
  assume "d < 10" and "d \<noteq> 0" and "digit_char d = CHR ''0''"
  then have "(of_char (digit_char d) :: nat) = of_char (CHR ''0'')" by simp
  with \<open>d < 10\<close> \<open>d \<noteq> 0\<close> show False by (simp add: of_char_digit)
qed

lemma after_dot_append:
  assumes "CHR ''.'' \<notin> set xs"
  shows "after_dot (xs @ CHR ''.'' # ys) = ys"
proof -
  from assms have "dropWhile (\<lambda>c. c \<noteq> CHR ''.'') (xs @ CHR ''.'' # ys) = CHR ''.'' # ys"
    by (auto simp: dropWhile_append3)
  then show ?thesis by (simp add: after_dot_def)
qed

lemma rstrip_zeros_last:
  assumes "s \<noteq> []" "last s \<noteq> CHR ''0''"
  shows "rstrip_zeros s = s"
proof -
  from assms have "hd (rev s) \<noteq> CHR ''0''" "rev s \<noteq> []"
    by (simp_all add: hd_rev)
  then have "dropWhile (\<lambda>c. c = CHR ''0'') (rev s) = rev s"
    by (cases "rev s") simp_all
  then show ?thesis by (simp add: rstrip_zeros_def)
qed

lemma rstrip_zeros_zeros: "rstrip_zeros (zeros n) = []"
  by (simp add: rstrip_zeros_def zeros_def)


lemma positional_fraction_digits:
  assumes "ds \<noteq> []" and "last ds \<noteq> 0" and "\<forall>d\<in>set ds. d < 10"
    and "- 4 < decpt" and "decpt \<le> 16"
  shows "int (length (rstrip_zeros (after_dot (format_float_short ds decpt))))
         = max 0 (int (length ds) - decpt)"
proof -
  define cs where "cs = map digit_char ds"
  define n where "n = int (length ds)"
  have len: "length cs = length ds" by (simp add: cs_def)
  have nodot: "CHR ''.'' \<notin> set cs"
  proof
    assume "CHR ''.'' \<in> set cs"
    then obtain d where "d \<in> set ds" "digit_char d = CHR ''.''"
      by (auto simp: cs_def)
    with assms(3) digit_char_not_dot [of d] show False by simp
  qed
  have cs_ne: "cs \<noteq> []" using assms(1) by (simp add: cs_def)
  have "last cs = digit_char (last ds)"
    using assms(1) by (simp add: cs_def last_map)
  moreover have "last ds < 10" using assms(1,3) by simp
  ultimately have last_cs: "last cs \<noteq> CHR ''0''"
    using assms(2) digit_char_not_zero by simp
  have last_nodot: "last cs \<noteq> CHR ''.''"
    using nodot cs_ne last_in_set by metis
  have n1: "1 \<le> n" using assms(1) by (cases ds) (simp_all add: n_def)
  consider (small) "decpt \<le> 0" | (inside) "0 < decpt" "decpt < n"
    | (edge) "decpt = n" | (large) "n < decpt"
    by linarith
  then show ?thesis
  proof cases
    case small
    with assms(4,5) n1 have f: "format_float_short ds decpt = ''0.'' @ zeros (nat (- decpt)) @ cs"
      using cs_ne last_cs last_nodot
      by (simp add: format_float_short_def Let_def cs_def [symmetric] n_def [symmetric]
          zeros_def max_def)
    have "after_dot (''0'' @ CHR ''.'' # (zeros (nat (- decpt)) @ cs)) = zeros (nat (- decpt)) @ cs"
      by (rule after_dot_append) simp
    then have "after_dot (format_float_short ds decpt) = zeros (nat (- decpt)) @ cs"
      by (simp add: f)
    moreover have "rstrip_zeros (zeros (nat (- decpt)) @ cs) = zeros (nat (- decpt)) @ cs"
      using cs_ne last_cs by (intro rstrip_zeros_last) simp_all
    ultimately show ?thesis
      using small n1 by (simp add: len zeros_def n_def)
  next
    case inside
    then have dne: "drop (nat decpt) cs \<noteq> []"
      by (simp add: len n_def)
    then have dl: "last (drop (nat decpt) cs) \<noteq> CHR ''0''"
      "last (drop (nat decpt) cs) \<noteq> CHR ''.''"
      using last_cs last_nodot by (simp_all add: last_drop len)
    from inside assms(4,5) have f: "format_float_short ds decpt
        = take (nat decpt) cs @ CHR ''.'' # drop (nat decpt) cs"
      using dne dl
      by (simp add: format_float_short_def Let_def cs_def [symmetric] n_def [symmetric]
          zeros_def max_def)
    have "CHR ''.'' \<notin> set (take (nat decpt) cs)"
      using nodot by (auto dest: in_set_takeD)
    then have "after_dot (format_float_short ds decpt) = drop (nat decpt) cs"
      unfolding f by (rule after_dot_append)
    moreover have "rstrip_zeros (drop (nat decpt) cs) = drop (nat decpt) cs"
      using dne dl(1) by (rule rstrip_zeros_last)
    ultimately show ?thesis
      using inside by (simp add: len n_def)
  next
    case edge
    have nn: "nat n = length cs" by (simp add: n_def len)
    from edge assms(4,5) n1 have f: "format_float_short ds decpt = cs @ CHR ''.'' # zeros 1"
      by (simp add: format_float_short_def Let_def cs_def [symmetric] n_def [symmetric]
          zeros_def max_def nn)
    have "after_dot (format_float_short ds decpt) = zeros 1"
      unfolding f using nodot by (rule after_dot_append)
    then show ?thesis
      using edge by (simp add: rstrip_zeros_zeros n_def)
  next
    case large
    with assms(4,5) n1 have f: "format_float_short ds decpt
        = (cs @ zeros (nat (decpt - n))) @ CHR ''.'' # zeros 1"
      by (simp add: format_float_short_def Let_def cs_def [symmetric] n_def [symmetric]
          zeros_def max_def)
    have "CHR ''.'' \<notin> set (cs @ zeros (nat (decpt - n)))"
      using nodot by (simp add: zeros_def)
    then have "after_dot (format_float_short ds decpt) = zeros 1"
      unfolding f by (rule after_dot_append)
    then show ?thesis
      using large by (simp add: rstrip_zeros_zeros n_def)
  qed
qed

text \<open>
  Where \<^verbatim>\<open>str\<close> prints positionally, that is for \<open>1e-4 \<le> \<bar>x\<bar> < 1e16\<close>, the function
  does count the fractional digits; the two examples of the specification are of this
  kind.
\<close>

lemma tick_size_to_precision_positional:
  assumes "float_digits q = (ds, decpt)"
    and "ds \<noteq> []" and "last ds \<noteq> 0" and "\<forall>d\<in>set ds. d < 10"
    and "- 4 < decpt" and "decpt \<le> 16"
  shows "tick_size_to_precision (Finite q) = fixed_point_fraction_digits (Finite q)"
proof -
  have "after_dot (float_str (Finite q)) = after_dot (format_float_short ds decpt)"
    by (simp add: float_str_def assms(1) after_dot_def)
  then show ?thesis
    using positional_fraction_digits [OF assms(2-6)]
    by (simp add: tick_size_to_precision_def fixed_point_fraction_digits_def assms(1))
qed

lemma tick_size_to_precision_spec_examples:
  "tick_size_to_precision (Finite (round_double (1 / 10000))) = 4"
  "fixed_point_fraction_digits (Finite (round_double (1 / 10000))) = 4"
  "tick_size_to_precision (Finite (round_double (1 / 100))) = 2"
  "fixed_point_fraction_digits (Finite (round_double (1 / 100))) = 2"
  by code_simp+

subsection \<open>The significant-digits mode\<close>

lemma parse_precisions_unsupported_mode:
  assumes "c_precisionMode c \<noteq> 2" and "c_precisionMode c \<noteq> 4"
    and "map_of values ''precision'' = Some (PDict d)"
  shows "parse_precisions ext c values = Inl (RuntimeError (unsupported_mode_message (c_name c)))"
  using assms by (simp add: parse_precisions_def dict_item_def typed_dict_def)

text \<open>
  C4. The claim: in SIGNIFICANT_DIGITS mode (\<open>3\<close>) every resolution path raises and no
  precision is returned. \<^verbatim>\<open>_parse_instrument\<close> raises, but \<^verbatim>\<open>_get_precision\<close>, which
  resolves the precision of a currency, has no branch for the mode and returns \<open>0\<close>:
  a currency with precision \<open>8\<close> is cached with precision \<open>0\<close> and nothing is raised.
\<close>

theorem get_precision_significant_digits_returns_zero:
  "get_precision x 3 = Inr 0
   \<and> parse_currency ext 3 code (PDict [(''precision'', PInt 8)])
       = Inr \<lparr> cur_code = code, cur_precision = 0, cur_type = parse_currency_type ext code \<rparr>"
proof -
  have d: "as_double (PInt 8) = Inr (Finite 8)"
    by code_simp
  show ?thesis
    by (simp add: get_precision_def parse_currency_def typed_dict_def dict_item_def d)
qed

subsection \<open>The steps of building an instrument\<close>

lemma succeeds_conv: "succeeds m \<longleftrightarrow> (\<exists>x. m = Inr x)"
  by (cases m) (simp_all add: succeeds_def)

lemma Inr_projr: "\<exists>x. m = Inr x \<Longrightarrow> m = Inr (projr m)"
  by auto

lemma parse_instrument_InrE:
  assumes "parse_instrument ext self symbol values now = Inr inst"
  obtains pp sp tick base lot minq where
    "parse_precisions ext (p_client self) values = Inr (pp, sp, tick)"
    "resolve_base_currency ext (p_currencies self) values = Inr base"
    "info_lot_size values = Inr lot"
    "limit_value values ''amount'' ''min'' = Inr minq"
    "i_lot_size inst = choose_lot_size lot (opt_quantity minq sp) sp"
    "i_size_precision inst = sp"
    "i_base_currency inst = base"
  using assms unfolding parse_instrument_def
  by (auto simp: bind_err_eq_Inr)

lemma quote_unresolved_error:
  assumes "map_of values ''quote'' = Some (PStr q)" "unresolved ext cache q"
  shows "resolve_quote_currency ext cache values = Inl (KeyError (PStr q))"
  using assms
  by (simp add: resolve_quote_currency_def dict_item_def currency_from_code_def unresolved_def)

lemma base_unresolved_error:
  assumes "map_of values ''base'' = Some (PStr c)" "unresolved ext cache c"
  shows "resolve_base_currency ext cache values = Inl (KeyError (PStr c))"
  using assms
  by (simp add: resolve_base_currency_def dict_item_def dict_get_def currency_from_code_def
      unresolved_def)

lemma base_absent_None:
  assumes "dict_get values ''base'' = PNone"
  shows "resolve_base_currency ext cache values = Inr None"
  using assms by (simp add: resolve_base_currency_def)

lemma base_present_Some:
  assumes "dict_get values ''base'' \<noteq> PNone" "resolve_base_currency ext cache values = Inr b"
  shows "b \<noteq> None"
  using assms by (auto simp: resolve_base_currency_def bind_err_eq_Inr)

lemma fails_at_base:
  assumes "resolve_base_currency ext (p_currencies self) values = Inl e"
  shows "\<exists>e'. parse_instrument ext self symbol values now = Inl e'"
  using assms unfolding parse_instrument_def
  by (cases "parse_precisions ext (p_client self) values"; cases "parse_asset_type ext values")
     (auto split: prod.splits)

lemma fails_at_quote:
  assumes "resolve_quote_currency ext (p_currencies self) values = Inl e"
  shows "\<exists>e'. parse_instrument ext self symbol values now = Inl e'"
  using assms unfolding parse_instrument_def
  by (cases "parse_precisions ext (p_client self) values"; cases "parse_asset_type ext values";
      cases "resolve_base_currency ext (p_currencies self) values")
     (auto split: prod.splits)

lemma error_at_base:
  assumes "parse_precisions ext (p_client self) values = Inr ps"
    "parse_asset_type ext values = Inr aty"
    "resolve_base_currency ext (p_currencies self) values = Inl e"
  shows "parse_instrument ext self symbol values now = Inl e"
  using assms unfolding parse_instrument_def by (auto split: prod.splits)

lemma error_at_quote:
  assumes "parse_precisions ext (p_client self) values = Inr ps"
    "parse_asset_type ext values = Inr aty"
    "resolve_base_currency ext (p_currencies self) values = Inr b"
    "resolve_quote_currency ext (p_currencies self) values = Inl e"
  shows "parse_instrument ext self symbol values now = Inl e"
  using assms unfolding parse_instrument_def by (auto split: prod.splits)

subsection \<open>The examples, evaluated\<close>

lemma tick_examples:
  "tick_size_to_precision (Finite (1 / 2)) = 1"
  "tick_size_to_precision (Finite (1 / 4)) = 2"
  "tick_size_to_precision (Finite 1) = 0"
  "tick_size_to_precision (Finite 5) = 0"
  "as_double (PInt 1) = Inr (Finite 1)"
  "round_double 5 = 5"
  by code_simp+

lemma example_precisions:
  assumes "map_of values ''precision'' = Some example_precision" "c_precisionMode c = 4"
  shows "parse_precisions ext c values = Inr (PInt 1, PInt 0, Decimal_of_float (Finite (1 / 2)))"
  using assms
  by (simp add: parse_precisions_def dict_item_def typed_dict_def example_precision_def
      dict_get_def make_decimal_def decimal_as_double_def tick_examples)

lemma coarse_precisions:
  assumes "c_precisionMode c = 4"
  shows "parse_precisions ext c market_coarse = Inr (PInt 0, PInt 2, Decimal_of_int 5)"
  using assms
  by (simp add: parse_precisions_def dict_item_def typed_dict_def market_coarse_def
      dict_get_def make_decimal_def decimal_as_double_def as_double_def tick_examples
      double_max_bound_def)

lemma example_provider_simps:
  "c_precisionMode (p_client example_provider) = 4"
  "p_currencies example_provider = [(''USDT'', usdt)]"
  "p_venue example_provider = ''BINANCE''"
  "p_instruments example_provider = 0"
  by (simp_all add: example_provider_def example_client_def)

lemma example_externals_simps:
  "from_str_c example_externals = (\<lambda>c. if c = Some ''BTC'' then Some btc else None)"
  "asset_type_from_str example_externals
     = (\<lambda>s. if s = ''SPOT'' then AssetTypeMember ''SPOT'' else UNDEFINED)"
  "decimal_literal example_externals = (\<lambda>s. None)"
  by (simp_all add: example_externals_def)

lemma str_upper_spot: "str_upper ''spot'' = ''SPOT''"
  by code_simp

lemmas example_defs =
  market_lot_def market_min_def market_unit_def market_unknown_base_def
  market_unknown_quote_def market_no_precision_def market_no_amount_def example_limits_def
  example_provider_simps example_externals_simps str_upper_spot

lemmas step_defs =
  parse_asset_type_def resolve_base_currency_def resolve_quote_currency_def
  currency_from_code_def limit_value_def info_lot_size_def parse_fee_def dict_item_def
  dict_get_def obj_get_def choose_lot_size_def opt_quantity_def

lemma parse_market_lot:
  "parse_instrument example_externals example_provider example_symbol market_lot 7
   = Inr (projr (parse_instrument example_externals example_provider example_symbol market_lot 7))"
  by (rule Inr_projr)
     (simp add: parse_instrument_def example_precisions example_defs step_defs)

lemma parse_market_min:
  "parse_instrument example_externals example_provider example_symbol market_min 7
   = Inr (projr (parse_instrument example_externals example_provider example_symbol market_min 7))"
  by (rule Inr_projr)
     (simp add: parse_instrument_def example_precisions example_defs step_defs)

lemma parse_market_unit:
  "parse_instrument example_externals example_provider example_symbol market_unit 7
   = Inr (projr (parse_instrument example_externals example_provider example_symbol market_unit 7))"
  by (rule Inr_projr)
     (simp add: parse_instrument_def example_precisions example_defs step_defs)

lemma parse_market_coarse:
  "parse_instrument example_externals example_provider example_symbol market_coarse 7
   = Inr (projr (parse_instrument example_externals example_provider example_symbol market_coarse 7))"
  by (rule Inr_projr)
     (simp add: parse_instrument_def coarse_precisions example_provider_simps,
      simp add: market_coarse_def example_defs step_defs)

lemma lot_of_examples:
  "info_lot_size market_lot = Inr (PInt 100)"
  "info_lot_size market_coarse = Inr (PInt 100)"
  "info_lot_size market_min = Inr PNone"
  "info_lot_size market_unit = Inr PNone"
  by (simp_all add: example_defs step_defs market_coarse_def)

lemma min_of_examples:
  "limit_value market_min ''amount'' ''min'' = Inr (PInt 5)"
  "limit_value market_unit ''amount'' ''min'' = Inr PNone"
  by (simp_all add: example_defs step_defs)

lemma size_precision_of_examples:
  "i_size_precision (projr (parse_instrument example_externals example_provider example_symbol market_min 7)) = PInt 0"
  "i_size_precision (projr (parse_instrument example_externals example_provider example_symbol market_lot 7)) = PInt 0"
  by (simp_all add: parse_instrument_def example_precisions example_defs step_defs)

lemma size_precision_of_coarse:
  "i_size_precision (projr (parse_instrument example_externals example_provider example_symbol market_coarse 7)) = PInt 2"
  by (simp add: parse_instrument_def coarse_precisions example_provider_simps,
      simp add: market_coarse_def example_defs step_defs)

subsection \<open>The lot size\<close>

text \<open>
  C7. Whenever an instrument is built, its lot size is decided in this order: the value
  of \<^verbatim>\<open>info.lotSize\<close> when the info block has one (\<^verbatim>\<open>.get\<close> is not \<^verbatim>\<open>None\<close>); else the
  minimum quantity of \<^verbatim>\<open>limits.amount.min\<close>, wrapped once more at the size precision,
  when there is one; else the quantity \<open>1\<close>. The conditional takes exactly one branch.
\<close>

theorem lot_size_fallback_order:
  assumes "parse_instrument ext self symbol values now = Inr inst"
  shows "\<exists>lot minq.
           info_lot_size values = Inr lot
         \<and> limit_value values ''amount'' ''min'' = Inr minq
         \<and> i_lot_size inst =
             (if lot \<noteq> PNone then Quantity lot None
              else if minq \<noteq> PNone
                   then Quantity_of (Quantity minq (Some (i_size_precision inst)))
                          (Some (i_size_precision inst))
                   else Quantity (PInt 1) None)"
  using assms
  by (elim parse_instrument_InrE) (auto simp: choose_lot_size_def opt_quantity_def)

theorem lot_size_fallback_order_witness:
  "i_lot_size (projr (parse_instrument example_externals example_provider example_symbol market_lot 7))
     = Quantity (PInt 100) None
   \<and> i_lot_size (projr (parse_instrument example_externals example_provider example_symbol market_min 7))
     = Quantity_of (Quantity (PInt 5) (Some (PInt 0))) (Some (PInt 0))
   \<and> i_lot_size (projr (parse_instrument example_externals example_provider example_symbol market_unit 7))
     = Quantity (PInt 1) None"
  using lot_size_fallback_order [OF parse_market_lot]
    lot_size_fallback_order [OF parse_market_min]
    lot_size_fallback_order [OF parse_market_unit]
  by (simp add: lot_of_examples min_of_examples size_precision_of_examples)

text \<open>
  C10. With an explicit \<^verbatim>\<open>info.lotSize\<close> the lot size is \<^verbatim>\<open>Quantity(lot_size)\<close>, built
  without a precision argument: any two instruments built from markets with the same
  explicit lot size have the same lot size, whatever their size precisions. The
  minimum-quantity branch passes the size precision of the instrument.
\<close>

theorem explicit_lot_size_ignores_size_precision:
  assumes "parse_instrument ext self symbol values now = Inr inst"
  shows "(\<forall>lot. info_lot_size values = Inr lot \<and> lot \<noteq> PNone \<longrightarrow>
            i_lot_size inst = Quantity lot None
          \<and> (\<forall>ext' self' symbol' values' now' inst'.
                parse_instrument ext' self' symbol' values' now' = Inr inst'
              \<and> info_lot_size values' = Inr lot
              \<longrightarrow> i_lot_size inst' = i_lot_size inst))
       \<and> (\<forall>minq. info_lot_size values = Inr PNone
              \<and> limit_value values ''amount'' ''min'' = Inr minq \<and> minq \<noteq> PNone \<longrightarrow>
            i_lot_size inst
              = Quantity_of (Quantity minq (Some (i_size_precision inst)))
                  (Some (i_size_precision inst)))"
proof (intro conjI allI impI)
  fix lot
  assume l: "info_lot_size values = Inr lot \<and> lot \<noteq> PNone"
  with assms show a: "i_lot_size inst = Quantity lot None"
    by (elim parse_instrument_InrE) (auto simp: choose_lot_size_def)
  fix ext' self' symbol' values' now' inst'
  assume "parse_instrument ext' self' symbol' values' now' = Inr inst'
              \<and> info_lot_size values' = Inr lot"
  with l have "i_lot_size inst' = Quantity lot None"
    by (elim conjE parse_instrument_InrE) (auto simp: choose_lot_size_def)
  with a show "i_lot_size inst' = i_lot_size inst"
    by simp
next
  fix minq
  assume "info_lot_size values = Inr PNone
              \<and> limit_value values ''amount'' ''min'' = Inr minq \<and> minq \<noteq> PNone"
  with assms show "i_lot_size inst
              = Quantity_of (Quantity minq (Some (i_size_precision inst)))
                  (Some (i_size_precision inst))"
    by (elim parse_instrument_InrE) (auto simp: choose_lot_size_def opt_quantity_def)
qed

theorem explicit_lot_size_ignores_size_precision_witness:
  "i_size_precision (projr (parse_instrument example_externals example_provider example_symbol market_lot 7))
     \<noteq> i_size_precision (projr (parse_instrument example_externals example_provider example_symbol market_coarse 7))
   \<and> i_lot_size (projr (parse_instrument example_externals example_provider example_symbol market_coarse 7))
     = i_lot_size (projr (parse_instrument example_externals example_provider example_symbol market_lot 7))
   \<and> i_lot_size (projr (parse_instrument example_externals example_provider example_symbol market_lot 7))
     = Quantity (PInt 100) None
   \<and> i_lot_size (projr (parse_instrument example_externals example_provider example_symbol market_min 7))
     = Quantity_of (Quantity (PInt 5) (Some (PInt 0))) (Some (PInt 0))"
proof -
  note lot = explicit_lot_size_ignores_size_precision [OF parse_market_lot]
  note mq = explicit_lot_size_ignores_size_precision [OF parse_market_min]
  have a: "i_lot_size (projr (parse_instrument example_externals example_provider example_symbol market_lot 7))
     = Quantity (PInt 100) None"
    using lot lot_of_examples(1) by blast
  have b: "i_lot_size (projr (parse_instrument example_externals example_provider example_symbol market_coarse 7))
     = i_lot_size (projr (parse_instrument example_externals example_provider example_symbol market_lot 7))"
    using lot lot_of_examples(1,2) parse_market_coarse by blast
  have c: "i_lot_size (projr (parse_instrument example_externals example_provider example_symbol market_min 7))
     = Quantity_of (Quantity (PInt 5) (Some (PInt 0))) (Some (PInt 0))"
    using mq lot_of_examples(3) min_of_examples(1) size_precision_of_examples(1) by force
  show ?thesis
    using a b c by (simp add: size_precision_of_examples size_precision_of_coarse)
qed

subsection \<open>Currencies nobody knows\<close>

lemma example_unresolved:
  "unresolved example_externals (p_currencies example_provider) ''DOGE''"
  "unresolved example_externals (p_currencies example_provider) ''XYZ''"
  "map_of market_unknown_base ''base'' = Some (PStr ''DOGE'')"
  "map_of market_unknown_quote ''quote'' = Some (PStr ''XYZ'')"
  "dict_get market_unit ''base'' = PNone"
  by (simp_all add: unresolved_def example_defs dict_get_def)

lemma example_steps:
  "parse_precisions example_externals (p_client example_provider) market_unknown_base
   = Inr (PInt 1, PInt 0, Decimal_of_float (Finite (1 / 2)))"
  "parse_precisions example_externals (p_client example_provider) market_unknown_quote
   = Inr (PInt 1, PInt 0, Decimal_of_float (Finite (1 / 2)))"
  "parse_precisions example_externals (p_client example_provider) market_no_amount
   = Inr (PInt 1, PInt 0, Decimal_of_float (Finite (1 / 2)))"
  "parse_asset_type example_externals market_unknown_base = Inr UNDEFINED"
  "parse_asset_type example_externals market_unknown_quote = Inr UNDEFINED"
  "parse_asset_type example_externals market_no_amount = Inr UNDEFINED"
  "resolve_base_currency example_externals (p_currencies example_provider) market_unknown_quote
   = Inr (Some btc)"
  "resolve_base_currency example_externals (p_currencies example_provider) market_no_amount
   = Inr (Some btc)"
  "resolve_quote_currency example_externals (p_currencies example_provider) market_no_amount
   = Inr usdt"
  by (simp_all add: example_precisions example_defs step_defs)

text \<open>
  C3, as stated, fails in its second half: a market whose base code \<^verbatim>\<open>DOGE\<close> is neither
  canonical nor cached is not built with an absent base currency; the subscript
  \<^verbatim>\<open>self._currencies[values["base"]]\<close> raises \<^verbatim>\<open>KeyError\<close>.
\<close>

theorem unknown_base_currency_counterexample:
  "parse_instrument example_externals example_provider example_symbol market_unknown_base 7
   = Inl (KeyError (PStr ''DOGE''))"
  by (simp add: parse_instrument_def example_precisions example_defs step_defs)

text \<open>
  C3, amended. A quote code that resolves by neither path makes the build fail, with
  \<^verbatim>\<open>KeyError\<close> of that code once the precision, asset-type and base steps have passed.
  A base code that is present and resolves by neither path makes the build fail in the
  same way, with \<^verbatim>\<open>KeyError\<close> of the base code once the precision and asset-type steps
  have passed. A built instrument has no base currency exactly when the market names
  none.
\<close>

theorem unresolved_currency_raises_key_error:
  "(map_of values ''quote'' = Some (PStr q) \<and> unresolved ext (p_currencies self) q \<longrightarrow>
      (\<exists>e. parse_instrument ext self symbol values now = Inl e)
    \<and> (\<forall>ps aty b. parse_precisions ext (p_client self) values = Inr ps
           \<and> parse_asset_type ext values = Inr aty
           \<and> resolve_base_currency ext (p_currencies self) values = Inr b
         \<longrightarrow> parse_instrument ext self symbol values now = Inl (KeyError (PStr q))))
 \<and> (map_of values ''base'' = Some (PStr c) \<and> unresolved ext (p_currencies self) c \<longrightarrow>
      (\<exists>e. parse_instrument ext self symbol values now = Inl e)
    \<and> (\<forall>ps aty. parse_precisions ext (p_client self) values = Inr ps
           \<and> parse_asset_type ext values = Inr aty
         \<longrightarrow> parse_instrument ext self symbol values now = Inl (KeyError (PStr c))))
 \<and> (parse_instrument ext self symbol values now = Inr inst \<longrightarrow>
      (i_base_currency inst = None \<longleftrightarrow> dict_get values ''base'' = PNone))"
proof (intro conjI impI allI)
  assume a: "map_of values ''quote'' = Some (PStr q) \<and> unresolved ext (p_currencies self) q"
  then show "\<exists>e. parse_instrument ext self symbol values now = Inl e"
    using fails_at_quote quote_unresolved_error by blast
next
  fix ps aty b
  assume "map_of values ''quote'' = Some (PStr q) \<and> unresolved ext (p_currencies self) q"
    and "parse_precisions ext (p_client self) values = Inr ps
           \<and> parse_asset_type ext values = Inr aty
           \<and> resolve_base_currency ext (p_currencies self) values = Inr b"
  then show "parse_instrument ext self symbol values now = Inl (KeyError (PStr q))"
    using error_at_quote quote_unresolved_error by blast
next
  assume "map_of values ''base'' = Some (PStr c) \<and> unresolved ext (p_currencies self) c"
  then show "\<exists>e. parse_instrument ext self symbol values now = Inl e"
    using fails_at_base base_unresolved_error by blast
next
  fix ps aty
  assume "map_of values ''base'' = Some (PStr c) \<and> unresolved ext (p_currencies self) c"
    and "parse_precisions ext (p_client self) values = Inr ps
           \<and> parse_asset_type ext values = Inr aty"
  then show "parse_instrument ext self symbol values now = Inl (KeyError (PStr c))"
    using error_at_base base_unresolved_error by blast
next
  assume p: "parse_instrument ext self symbol values now = Inr inst"
  from p obtain base where
    b: "resolve_base_currency ext (p_currencies self) values = Inr base"
    and i: "i_base_currency inst = base"
    by (elim parse_instrument_InrE)
  show "i_base_currency inst = None \<longleftrightarrow> dict_get values ''base'' = PNone"
  proof
    assume "i_base_currency inst = None"
    with b i show "dict_get values ''base'' = PNone"
      using base_present_Some by blast
  next
    assume "dict_get values ''base'' = PNone"
    with b i show "i_base_currency inst = None"
      using base_absent_None by fastforce
  qed
qed

theorem unresolved_currency_raises_key_error_witness:
  "parse_instrument example_externals example_provider example_symbol market_unknown_quote 7
     = Inl (KeyError (PStr ''XYZ''))
   \<and> parse_instrument example_externals example_provider example_symbol market_unknown_base 7
     = Inl (KeyError (PStr ''DOGE''))
   \<and> i_base_currency (projr (parse_instrument example_externals example_provider example_symbol market_unit 7))
     = None"
  using unresolved_currency_raises_key_error
      [of market_unknown_quote "''XYZ''" example_externals example_provider example_symbol 7]
    unresolved_currency_raises_key_error
      [of market_unknown_base _ example_externals example_provider example_symbol 7 "''DOGE''"]
    unresolved_currency_raises_key_error
      [of market_unit _ example_externals example_provider example_symbol 7 _
          "projr (parse_instrument example_externals example_provider example_symbol market_unit 7)"]
    parse_market_unit
  by (simp add: example_unresolved example_steps)

subsection \<open>Markets that lack a block\<close>

text \<open>
  C8, as stated, fails: the provider has no typed error for a malformed market. A
  market without precision block fails with the plain \<^verbatim>\<open>KeyError\<close> of the
  subscript, which carries the key and no symbol.
\<close>

theorem missing_precision_block_counterexample:
  "parse_instrument example_externals example_provider example_symbol market_no_precision 7
   = Inl (KeyError (PStr ''precision''))"
  by (simp add: parse_instrument_def parse_precisions_def dict_item_def example_defs)

text \<open>
  C8, amended. A market in which a required block is absent fails with the lookup
  error of the statement that reads it: \<^verbatim>\<open>KeyError\<close> of the key for an absent
  \<^verbatim>\<open>precision\<close>, \<^verbatim>\<open>limits\<close> or \<^verbatim>\<open>info\<close> entry, \<^verbatim>\<open>AttributeError\<close> for an absent
  \<^verbatim>\<open>limits.amount\<close> or \<^verbatim>\<open>limits.cost\<close> block (the method \<^verbatim>\<open>get\<close> of \<^verbatim>\<open>None\<close>). The
  precision block is read first; the others are read after the currencies are
  resolved, in the order limits, amount, info, cost.
\<close>

theorem missing_block_raises_lookup_error:
  "(map_of values ''precision'' = None \<longrightarrow>
      parse_instrument ext self symbol values now = Inl (KeyError (PStr ''precision'')))
 \<and> (steps_before_limits_pass ext self values \<longrightarrow>
      (map_of values ''limits'' = None \<longrightarrow>
         parse_instrument ext self symbol values now = Inl (KeyError (PStr ''limits'')))
    \<and> (\<forall>l. map_of values ''limits'' = Some (PDict l) \<and> dict_get l ''amount'' = PNone \<longrightarrow>
         parse_instrument ext self symbol values now = Inl AttributeError)
    \<and> (\<forall>l a. map_of values ''limits'' = Some (PDict l) \<and> dict_get l ''amount'' = PDict a
           \<and> map_of values ''info'' = None \<longrightarrow>
         parse_instrument ext self symbol values now = Inl (KeyError (PStr ''info'')))
    \<and> (\<forall>l a i. map_of values ''limits'' = Some (PDict l) \<and> dict_get l ''amount'' = PDict a
           \<and> map_of values ''info'' = Some (PDict i) \<and> dict_get l ''cost'' = PNone \<longrightarrow>
         parse_instrument ext self symbol values now = Inl AttributeError))"
proof (intro conjI impI allI)
  assume "map_of values ''precision'' = None"
  then show "parse_instrument ext self symbol values now = Inl (KeyError (PStr ''precision''))"
    by (simp add: parse_instrument_def parse_precisions_def dict_item_def)
next
  assume "steps_before_limits_pass ext self values" and "map_of values ''limits'' = None"
  then show "parse_instrument ext self symbol values now = Inl (KeyError (PStr ''limits''))"
    by (auto simp: steps_before_limits_pass_def succeeds_conv parse_instrument_def
        limit_value_def dict_item_def)
next
  fix l
  assume "steps_before_limits_pass ext self values"
    and "map_of values ''limits'' = Some (PDict l) \<and> dict_get l ''amount'' = PNone"
  then show "parse_instrument ext self symbol values now = Inl AttributeError"
    by (auto simp: steps_before_limits_pass_def succeeds_conv parse_instrument_def
        limit_value_def dict_item_def obj_get_def)
next
  fix l a
  assume "steps_before_limits_pass ext self values"
    and "map_of values ''limits'' = Some (PDict l) \<and> dict_get l ''amount'' = PDict a
           \<and> map_of values ''info'' = None"
  then show "parse_instrument ext self symbol values now = Inl (KeyError (PStr ''info''))"
    by (auto simp: steps_before_limits_pass_def succeeds_conv parse_instrument_def
        limit_value_def info_lot_size_def dict_item_def obj_get_def)
next
  fix l a i
  assume "steps_before_limits_pass ext self values"
    and "map_of values ''limits'' = Some (PDict l) \<and> dict_get l ''amount'' = PDict a
           \<and> map_of values ''info'' = Some (PDict i) \<and> dict_get l ''cost'' = PNone"
  then show "parse_instrument ext self symbol values now = Inl AttributeError"
    by (auto simp: steps_before_limits_pass_def succeeds_conv parse_instrument_def
        limit_value_def info_lot_size_def dict_item_def obj_get_def)
qed

lemma steps_pass_no_amount:
  "steps_before_limits_pass example_externals example_provider market_no_amount"
  by (simp add: steps_before_limits_pass_def succeeds_def example_steps)

theorem missing_block_raises_lookup_error_witness:
  "map_of market_no_precision ''precision'' = None
   \<and> steps_before_limits_pass example_externals example_provider market_no_amount
   \<and> parse_instrument example_externals example_provider example_symbol market_no_amount 7
     = Inl AttributeError"
  using missing_block_raises_lookup_error
      [of market_no_amount example_externals example_provider example_symbol 7]
    steps_pass_no_amount
  by (simp add: market_no_amount_def market_no_precision_def dict_get_def)

subsection \<open>The loop of the instrument loader\<close>

lemma set_instrument_simps:
  "next_free (set_instrument self k inst h) = next_free h"
  "cells (set_instrument self k inst h) (p_instruments self)
     = AList.update k inst (cells h (p_instruments self))"
  "a \<noteq> p_instruments self \<Longrightarrow> cells (set_instrument self k inst h) a = cells h a"
  by (simp_all add: set_instrument_def)

lemma loop_Cons:
  "load_instruments_loop ext self clock i ((k, v) # rest) h =
     (case parse_market ext self \<lparr>s_code = k, s_venue = p_venue self\<rparr> v (clock i) of
        Inl e \<Rightarrow> (Some e, h)
      | Inr inst \<Rightarrow>
          load_instruments_loop ext self clock (Suc i) rest (set_instrument self k inst h))"
  by (simp add: Let_def split: sum.splits)

declare load_instruments_loop.simps(2) [simp del]

lemma loop_frame:
  "next_free (snd (load_instruments_loop ext self clock i ms h)) = next_free h
   \<and> (\<forall>a. a \<noteq> p_instruments self \<longrightarrow>
         cells (snd (load_instruments_loop ext self clock i ms h)) a = cells h a)"
proof (induction ms arbitrary: i h)
  case Nil
  show ?case by simp
next
  case (Cons m ms)
  obtain k v where m: "m = (k, v)" by (cases m)
  show ?case
    using Cons.IH by (simp add: m loop_Cons set_instrument_simps split: sum.splits)
qed

lemma loop_keys_grow:
  "fst ` set (cells h (p_instruments self))
   \<subseteq> fst ` set (cells (snd (load_instruments_loop ext self clock i ms h)) (p_instruments self))"
proof (induction ms arbitrary: i h)
  case Nil
  show ?case by simp
next
  case (Cons m ms)
  obtain k v where m: "m = (k, v)" by (cases m)
  show ?case
  proof (cases "parse_market ext self \<lparr>s_code = k, s_venue = p_venue self\<rparr> v (clock i)")
    case (Inl e)
    then show ?thesis by (simp add: m loop_Cons)
  next
    case (Inr inst)
    have "fst ` set (cells h (p_instruments self))
          \<subseteq> fst ` set (cells (set_instrument self k inst h) (p_instruments self))"
      by (auto simp: set_instrument_simps dom_update)
    also have "\<dots> \<subseteq> fst ` set (cells (snd (load_instruments_loop ext self clock (Suc i) ms
                        (set_instrument self k inst h))) (p_instruments self))"
      by (rule Cons.IH)
    finally show ?thesis by (simp add: m loop_Cons Inr)
  qed
qed

lemma loop_lookup_other:
  assumes "k \<notin> fst ` set ms"
  shows "map_of (cells (snd (load_instruments_loop ext self clock i ms h)) (p_instruments self)) k
         = map_of (cells h (p_instruments self)) k"
  using assms
proof (induction ms arbitrary: i h)
  case Nil
  show ?case by simp
next
  case (Cons m ms)
  obtain k' v where m: "m = (k', v)" by (cases m)
  from Cons.prems have ne: "k \<noteq> k'" and notin: "k \<notin> fst ` set ms"
    by (auto simp: m)
  show ?case
    using Cons.IH [OF notin] ne
    by (simp add: m loop_Cons set_instrument_simps update_conv' split: sum.splits)
qed

lemma loop_prefix:
  assumes "fst (load_instruments_loop ext self clock i pre h) = None"
  shows "load_instruments_loop ext self clock i (pre @ rest) h
         = load_instruments_loop ext self clock (i + length pre) rest
             (snd (load_instruments_loop ext self clock i pre h))"
  using assms
proof (induction pre arbitrary: i h)
  case Nil
  show ?case by simp
next
  case (Cons m pre)
  obtain k v where m: "m = (k, v)" by (cases m)
  show ?case
    using Cons.prems Cons.IH by (simp add: m loop_Cons split: sum.splits)
qed

lemma loop_success:
  assumes "\<forall>j<length ms. succeeds (parse_market ext self
             \<lparr>s_code = fst (ms ! j), s_venue = p_venue self\<rparr> (snd (ms ! j)) (clock (i + j)))"
  shows "fst (load_instruments_loop ext self clock i ms h) = None"
  using assms
proof (induction ms arbitrary: i h)
  case Nil
  show ?case by simp
next
  case (Cons m ms)
  obtain k v where m: "m = (k, v)" by (cases m)
  from Cons.prems have "succeeds (parse_market ext self
             \<lparr>s_code = k, s_venue = p_venue self\<rparr> v (clock i))"
    by (auto simp: m)
  then obtain inst where inst: "parse_market ext self
             \<lparr>s_code = k, s_venue = p_venue self\<rparr> v (clock i) = Inr inst"
    by (auto simp: succeeds_conv)
  have "\<forall>j<length ms. succeeds (parse_market ext self
             \<lparr>s_code = fst (ms ! j), s_venue = p_venue self\<rparr> (snd (ms ! j)) (clock (Suc i + j)))"
    using Cons.prems by fastforce
  from Cons.IH [OF this] show ?case
    by (simp add: m loop_Cons inst)
qed

lemma loop_lookup_built:
  assumes "distinct (map fst ms)"
    and "fst (load_instruments_loop ext self clock i ms h) = None"
    and "j < length ms"
  shows "map_option Inr
           (map_of (cells (snd (load_instruments_loop ext self clock i ms h)) (p_instruments self))
              (fst (ms ! j)))
         = Some (parse_market ext self
             \<lparr>s_code = fst (ms ! j), s_venue = p_venue self\<rparr> (snd (ms ! j)) (clock (i + j)))"
  using assms
proof (induction ms arbitrary: i h j)
  case Nil
  then show ?case by simp
next
  case (Cons m ms)
  obtain k v where m: "m = (k, v)" by (cases m)
  from Cons.prems(2) obtain inst where
    inst: "parse_market ext self \<lparr>s_code = k, s_venue = p_venue self\<rparr> v (clock i) = Inr inst"
    and rest: "fst (load_instruments_loop ext self clock (Suc i) ms (set_instrument self k inst h)) = None"
    by (auto simp: m loop_Cons split: sum.splits)
  from Cons.prems(1) have notin: "k \<notin> fst ` set ms" and dist: "distinct (map fst ms)"
    by (auto simp: m)
  show ?case
  proof (cases j)
    case 0
    then show ?thesis
      using loop_lookup_other [OF notin, of ext self clock "Suc i" "set_instrument self k inst h"]
      by (simp add: m loop_Cons inst set_instrument_simps update_conv')
  next
    case (Suc j')
    with Cons.prems(3) have "j' < length ms" by simp
    from Cons.IH [OF dist rest this] show ?thesis
      by (simp add: m loop_Cons inst Suc)
  qed
qed

subsection \<open>A load that fails part-way\<close>

lemma load_instruments_fails_after_prefix:
  assumes markets: "c_markets (p_client self) = pre @ (k, v) # post"
    and ok: "\<forall>j<length pre. succeeds (parse_market ext self
               \<lparr>s_code = fst (pre ! j), s_venue = p_venue self\<rparr> (snd (pre ! j)) (clock j))"
    and bad: "parse_market ext self \<lparr>s_code = k, s_venue = p_venue self\<rparr> v (clock (length pre))
               = Inl e"
  shows "load_instruments ext clock h self
         = (Some e, snd (load_instruments_loop ext self clock 0 pre h), self)"
proof -
  have pre: "fst (load_instruments_loop ext self clock 0 pre h) = None"
    using ok by (intro loop_success) simp
  have "load_instruments_loop ext self clock 0 (pre @ (k, v) # post) h
        = (Some e, snd (load_instruments_loop ext self clock 0 pre h))"
    by (simp add: loop_prefix [OF pre] loop_Cons bad)
  then show ?thesis
    by (simp add: load_instruments_def markets)
qed

lemma example_markets_split:
  "c_markets (p_client example_provider)
   = [(''BTC/USDT'', PDict market_min)] @ (''ETH/USDT'', PDict market_no_precision) # []"
  by (simp add: example_provider_def example_client_def)

lemma example_first_market_built:
  "parse_market example_externals example_provider
     \<lparr>s_code = ''BTC/USDT'', s_venue = p_venue example_provider\<rparr> (PDict market_min)
     (example_clock 0)
   = Inr (projr (parse_instrument example_externals example_provider example_symbol market_min 7))"
  using parse_market_min
  by (simp add: parse_market_def typed_dict_def example_symbol_def example_provider_simps
      example_clock_def)

lemma example_second_market_fails:
  "parse_market example_externals example_provider
     \<lparr>s_code = ''ETH/USDT'', s_venue = p_venue example_provider\<rparr> (PDict market_no_precision)
     (example_clock (length [(''BTC/USDT'', PDict market_min)]))
   = Inl (KeyError (PStr ''precision''))"
  by (simp add: parse_market_def typed_dict_def parse_instrument_def parse_precisions_def
      dict_item_def market_no_precision_def)

lemma old_instrument_lot: "i_lot_size old_instrument = Quantity (PInt 100) None"
  by (simp add: old_instrument_def parse_instrument_def example_precisions example_defs step_defs)

lemma rebuilt_differs_from_old:
  "projr (parse_instrument example_externals example_provider example_symbol market_min 7)
   \<noteq> old_instrument"
proof
  assume "projr (parse_instrument example_externals example_provider example_symbol market_min 7)
          = old_instrument"
  then have "i_lot_size (projr (parse_instrument example_externals example_provider
                example_symbol market_min 7)) = i_lot_size old_instrument"
    by simp
  then show False
    by (simp add: old_instrument_lot parse_instrument_def example_precisions example_defs
        step_defs)
qed

lemma example_load_fails:
  "load_instruments example_externals example_clock example_store example_provider
   = (Some (KeyError (PStr ''precision'')),
      set_instrument example_provider ''BTC/USDT''
        (projr (parse_instrument example_externals example_provider example_symbol market_min 7))
        example_store,
      example_provider)"
proof -
  have ok: "\<forall>j<length [(''BTC/USDT'', PDict market_min)].
      succeeds (parse_market example_externals example_provider
        \<lparr>s_code = fst ([(''BTC/USDT'', PDict market_min)] ! j), s_venue = p_venue example_provider\<rparr>
        (snd ([(''BTC/USDT'', PDict market_min)] ! j)) (example_clock j))"
    using example_first_market_built by (simp add: succeeds_def)
  show ?thesis
    using load_instruments_fails_after_prefix
      [OF example_markets_split ok example_second_market_fails, of example_store]
    by (simp add: loop_Cons example_first_market_built)
qed

lemma load_all_runs_instrument_loader:
  assumes "load_currencies ext (self0\<lparr>p_client := c\<rparr>) = (None, self)"
  shows "load_all ext clock (Inr c) h self0 = load_instruments ext clock h self"
  using assms by (simp add: load_all_def)

text \<open>
  C5, as stated, fails in its last part: an entry cached before the load is not always
  unchanged after a failed load. The cache holds an instrument for \<^verbatim>\<open>BTC/USDT\<close>; the
  load builds \<^verbatim>\<open>BTC/USDT\<close> anew, then fails on the second market; the cached entry has
  been replaced.
\<close>

theorem failed_load_replaces_cached_entry_counterexample:
  "fst (load_instruments example_externals example_clock example_store example_provider)
     = Some (KeyError (PStr ''precision''))
   \<and> get example_store example_provider example_symbol = Some old_instrument
   \<and> get (fst (snd (load_instruments example_externals example_clock example_store
              example_provider))) example_provider example_symbol
     \<noteq> Some old_instrument"
  unfolding example_load_fails
  using rebuilt_differs_from_old
  by (simp add: get_def set_instrument_def example_store_def example_provider_simps
      example_symbol_def)

text \<open>
  C5, amended. When the markets before the \<open>k\<close>-th are built and the \<open>k\<close>-th fails with
  \<open>e\<close>, \<^verbatim>\<open>_load_instruments\<close> raises \<open>e\<close> and leaves the provider's fields as they were
  (\<^verbatim>\<open>count\<close> is not updated); the instruments built from the earlier markets are in the
  dictionary under their codes; every code cached before is still cached; and every
  entry cached before whose code is not among the earlier markets is unchanged. (An
  entry whose code is among them has been replaced by the new instrument.)
\<close>

theorem failed_load_keeps_earlier_upserts:
  assumes "c_markets (p_client self) = pre @ (k, v) # post"
    and "distinct (map fst pre)"
    and "\<forall>j<length pre. succeeds (parse_market ext self
               \<lparr>s_code = fst (pre ! j), s_venue = p_venue self\<rparr> (snd (pre ! j)) (clock j))"
    and "parse_market ext self \<lparr>s_code = k, s_venue = p_venue self\<rparr> v (clock (length pre))
               = Inl e"
  shows "fst (load_instruments ext clock h self) = Some e
       \<and> snd (snd (load_instruments ext clock h self)) = self
       \<and> (\<forall>j<length pre.
            map_option Inr (get (fst (snd (load_instruments ext clock h self))) self
                              \<lparr>s_code = fst (pre ! j), s_venue = p_venue self\<rparr>)
            = Some (parse_market ext self
                      \<lparr>s_code = fst (pre ! j), s_venue = p_venue self\<rparr> (snd (pre ! j)) (clock j)))
       \<and> instrument_keys h self
            \<subseteq> instrument_keys (fst (snd (load_instruments ext clock h self))) self
       \<and> (\<forall>symbol. s_code symbol \<notin> fst ` set pre \<longrightarrow>
            get (fst (snd (load_instruments ext clock h self))) self symbol = get h self symbol)"
proof -
  have pre: "fst (load_instruments_loop ext self clock 0 pre h) = None"
    using assms(3) by (intro loop_success) simp
  note run = load_instruments_fails_after_prefix [OF assms(1) assms(3) assms(4), of h]
  have built: "\<forall>j<length pre.
            map_option Inr (get (snd (load_instruments_loop ext self clock 0 pre h)) self
                              \<lparr>s_code = fst (pre ! j), s_venue = p_venue self\<rparr>)
            = Some (parse_market ext self
                      \<lparr>s_code = fst (pre ! j), s_venue = p_venue self\<rparr> (snd (pre ! j)) (clock j))"
    using loop_lookup_built [OF assms(2) pre] by (simp add: get_def)
  have keys: "instrument_keys h self
            \<subseteq> instrument_keys (snd (load_instruments_loop ext self clock 0 pre h)) self"
    unfolding instrument_keys_def by (rule loop_keys_grow)
  have other: "\<forall>symbol. s_code symbol \<notin> fst ` set pre \<longrightarrow>
            get (snd (load_instruments_loop ext self clock 0 pre h)) self symbol = get h self symbol"
    using loop_lookup_other by (simp add: get_def)
  show ?thesis
    using built keys other by (simp add: run)
qed

theorem failed_load_keeps_earlier_upserts_witness:
  "fst (load_instruments example_externals example_clock example_store example_provider)
     = Some (KeyError (PStr ''precision''))
   \<and> get (fst (snd (load_instruments example_externals example_clock example_store
              example_provider))) example_provider example_symbol
     = Some (projr (parse_instrument example_externals example_provider example_symbol market_min 7))
   \<and> get (fst (snd (load_instruments example_externals example_clock example_store
              example_provider))) example_provider \<lparr>s_code = ''LTC/USDT'', s_venue = ''BINANCE''\<rparr>
     = Some old_instrument"
proof -
  have ok: "\<forall>j<length [(''BTC/USDT'', PDict market_min)].
      succeeds (parse_market example_externals example_provider
        \<lparr>s_code = fst ([(''BTC/USDT'', PDict market_min)] ! j), s_venue = p_venue example_provider\<rparr>
        (snd ([(''BTC/USDT'', PDict market_min)] ! j)) (example_clock j))"
    using example_first_market_built by (simp add: succeeds_def)
  have dist: "distinct (map fst [(''BTC/USDT'', PDict market_min)])"
    by simp
  note fact = failed_load_keeps_earlier_upserts
    [OF example_markets_split dist ok example_second_market_fails, of example_store]
  have old: "get example_store example_provider \<lparr>s_code = ''LTC/USDT'', s_venue = ''BINANCE''\<rparr>
             = Some old_instrument"
    by (simp add: get_def example_store_def example_provider_simps)
  from fact have a: "fst (load_instruments example_externals example_clock example_store example_provider)
     = Some (KeyError (PStr ''precision''))"
    by blast
  from fact have "map_option Inr (get (fst (snd (load_instruments example_externals example_clock
       example_store example_provider))) example_provider
       \<lparr>s_code = ''BTC/USDT'', s_venue = p_venue example_provider\<rparr>)
     = Some (parse_market example_externals example_provider
              \<lparr>s_code = ''BTC/USDT'', s_venue = p_venue example_provider\<rparr> (PDict market_min)
              (example_clock 0))"
    by simp
  then have "map_option Inr (get (fst (snd (load_instruments example_externals example_clock
       example_store example_provider))) example_provider
       \<lparr>s_code = ''BTC/USDT'', s_venue = p_venue example_provider\<rparr>)
     = Some (Inr (projr (parse_instrument example_externals example_provider example_symbol
                          market_min 7)) :: error + instrument)"
    by (simp only: example_first_market_built)
  then have b: "get (fst (snd (load_instruments example_externals example_clock example_store
              example_provider))) example_provider example_symbol
     = Some (projr (parse_instrument example_externals example_provider example_symbol market_min 7))"
    by (auto simp: example_symbol_def example_provider_simps)
  from fact have "get (fst (snd (load_instruments example_externals example_clock example_store
              example_provider))) example_provider \<lparr>s_code = ''LTC/USDT'', s_venue = ''BINANCE''\<rparr>
     = get example_store example_provider \<lparr>s_code = ''LTC/USDT'', s_venue = ''BINANCE''\<rparr>"
    by simp
  with old a b show ?thesis
    by simp
qed

subsection \<open>The copy returned by get_all\<close>

lemma init_allocates:
  "init ext clock fetched h c False = (r, h', self) \<Longrightarrow>
     p_instruments self < next_free h' \<and> cells h' (p_instruments self) = []"
  by (auto simp: init_def Let_def)

lemma get_all_keeps_allocation:
  "p_instruments self < next_free h \<Longrightarrow> p_instruments self < next_free (snd (get_all h self))"
  by (simp add: get_all_def Let_def)

text \<open>
  C9. \<^verbatim>\<open>get_all\<close> returns a new dictionary with the bindings of the provider's own.
  Whatever the caller then does to the returned dictionary, \<^verbatim>\<open>get\<close> answers as before
  the call and a further \<^verbatim>\<open>get_all\<close> returns the same bindings as before. The
  provider's dictionary is an allocated object (its address is below the next free
  one), which \<^verbatim>\<open>__init__\<close> establishes.
\<close>

theorem get_all_copy_is_independent:
  assumes "p_instruments self < next_free h"
  shows "fst (get_all h self) \<noteq> p_instruments self
       \<and> cells (snd (get_all h self)) (fst (get_all h self)) = cells h (p_instruments self)
       \<and> get (snd (get_all h self)) self symbol = get h self symbol
       \<and> get (mutate (fst (get_all h self)) f (snd (get_all h self))) self symbol
           = get h self symbol
       \<and> cells (snd (get_all (mutate (fst (get_all h self)) f (snd (get_all h self))) self))
               (fst (get_all (mutate (fst (get_all h self)) f (snd (get_all h self))) self))
           = cells h (p_instruments self)"
  using assms by (simp add: get_all_def get_def mutate_def Let_def)

theorem get_all_copy_is_independent_witness:
  "p_instruments example_provider < next_free example_store
   \<and> get (mutate (fst (get_all example_store example_provider)) (\<lambda>d. [])
            (snd (get_all example_store example_provider))) example_provider example_symbol
     = Some old_instrument
   \<and> cells (mutate (fst (get_all example_store example_provider)) (\<lambda>d. [])
            (snd (get_all example_store example_provider)))
        (fst (get_all example_store example_provider)) = []"
proof -
  have a: "p_instruments example_provider < next_free example_store"
    by (simp add: example_provider_simps example_store_def)
  have b: "get example_store example_provider example_symbol = Some old_instrument"
    by (simp add: get_def example_store_def example_provider_simps example_symbol_def)
  have c: "cells (mutate (fst (get_all example_store example_provider)) (\<lambda>d. [])
            (snd (get_all example_store example_provider)))
        (fst (get_all example_store example_provider)) = []"
    by (simp add: mutate_def get_all_def Let_def)
  show ?thesis
    using get_all_copy_is_independent [OF a, of example_symbol "\<lambda>d. []"] a b c by simp
qed

subsection \<open>Reloading\<close>

lemma currencies_loop_keys_grow:
  "fst ` set cache \<subseteq> fst ` set (snd (load_currencies_loop ext mode cs cache))"
proof (induction cs arbitrary: cache)
  case Nil
  show ?case by simp
next
  case (Cons m cs)
  obtain code v where m: "m = (code, v)" by (cases m)
  show ?case
  proof (cases "parse_currency ext mode code v")
    case (Inl e)
    then show ?thesis by (simp add: m)
  next
    case (Inr cur)
    have "fst ` set cache \<subseteq> fst ` set (AList.update code cur cache)"
      by (auto simp: dom_update)
    also have "\<dots> \<subseteq> fst ` set (snd (load_currencies_loop ext mode cs (AList.update code cur cache)))"
      by (rule Cons.IH)
    finally show ?thesis by (simp add: m Inr)
  qed
qed

lemma load_currencies_frame:
  "currency_keys self \<subseteq> currency_keys (snd (load_currencies ext self))
   \<and> p_instruments (snd (load_currencies ext self)) = p_instruments self
   \<and> p_venue (snd (load_currencies ext self)) = p_venue self
   \<and> p_client (snd (load_currencies ext self)) = p_client self"
proof (cases "as_c_int (c_precisionMode (p_client self))")
  case (Inl e)
  then show ?thesis by (simp add: load_currencies_def)
next
  case (Inr precision_mode)
  obtain r cache where l: "load_currencies_loop ext precision_mode
      (c_currencies (p_client self)) (p_currencies self) = (r, cache)"
    by (cases "load_currencies_loop ext precision_mode
                 (c_currencies (p_client self)) (p_currencies self)")
  from currencies_loop_keys_grow
    [of "p_currencies self" ext precision_mode "c_currencies (p_client self)"]
  show ?thesis
    by (simp add: load_currencies_def Inr l currency_keys_def)
qed

lemma load_instruments_frame:
  "instrument_keys h self \<subseteq> instrument_keys (fst (snd (load_instruments ext clock h self))) self
   \<and> p_instruments (snd (snd (load_instruments ext clock h self))) = p_instruments self
   \<and> p_currencies (snd (snd (load_instruments ext clock h self))) = p_currencies self"
  using loop_keys_grow [of h self ext clock 0 "c_markets (p_client self)"]
  by (cases "load_instruments_loop ext self clock 0 (c_markets (p_client self)) h")
     (simp add: load_instruments_def instrument_keys_def split: option.splits)

lemma load_all_keys_grow:
  "instrument_keys h self
     \<subseteq> instrument_keys (fst (snd (load_all ext clock fetched h self)))
          (snd (snd (load_all ext clock fetched h self)))
   \<and> currency_keys self \<subseteq> currency_keys (snd (snd (load_all ext clock fetched h self)))
   \<and> p_instruments (snd (snd (load_all ext clock fetched h self))) = p_instruments self"
proof (cases fetched)
  case (Inl e)
  then show ?thesis by (simp add: load_all_def)
next
  case (Inr c)
  obtain r self1 where lc: "load_currencies ext (self\<lparr>p_client := c\<rparr>) = (r, self1)"
    by (cases "load_currencies ext (self\<lparr>p_client := c\<rparr>)")
  from load_currencies_frame [of "self\<lparr>p_client := c\<rparr>" ext]
  have ck: "currency_keys self \<subseteq> currency_keys self1"
    and pi: "p_instruments self1 = p_instruments self"
    by (simp_all add: lc currency_keys_def)
  show ?thesis
  proof (cases r)
    case (Some e)
    then show ?thesis
      using ck pi by (simp add: load_all_def Inr lc instrument_keys_def)
  next
    case None
    from load_instruments_frame [of h self1 ext clock]
    show ?thesis
      using ck pi by (simp add: load_all_def Inr lc None instrument_keys_def currency_keys_def)
  qed
qed

lemma load_all_seq_keys_grow:
  "instrument_keys h self
     \<subseteq> instrument_keys (fst (load_all_seq ext loads h self)) (snd (load_all_seq ext loads h self))
   \<and> currency_keys self \<subseteq> currency_keys (snd (load_all_seq ext loads h self))
   \<and> p_instruments (snd (load_all_seq ext loads h self)) = p_instruments self"
proof (induction loads arbitrary: h self)
  case Nil
  show ?case by simp
next
  case (Cons l loads)
  obtain clock fetched where l: "l = (clock, fetched)" by (cases l)
  obtain r h1 self1 where la: "load_all ext clock fetched h self = (r, h1, self1)"
    by (cases "load_all ext clock fetched h self")
  from load_all_keys_grow [of h self ext clock fetched]
  have a: "instrument_keys h self \<subseteq> instrument_keys h1 self1"
    and b: "currency_keys self \<subseteq> currency_keys self1"
    and c: "p_instruments self1 = p_instruments self"
    by (simp_all add: la)
  from Cons.IH [of h1 self1] a b c show ?case
    by (auto simp: l la)
qed

lemma load_all_success:
  assumes "load_all ext clock (Inr c) h self = (None, h', self')"
  shows "h' = snd (load_instruments_loop ext (snd (load_currencies ext (self\<lparr>p_client := c\<rparr>)))
                clock 0 (c_markets c) h)
       \<and> fst (load_instruments_loop ext (snd (load_currencies ext (self\<lparr>p_client := c\<rparr>)))
                clock 0 (c_markets c) h) = None
       \<and> p_instruments self' = p_instruments self"
proof -
  obtain r self1 where lc: "load_currencies ext (self\<lparr>p_client := c\<rparr>) = (r, self1)"
    by (cases "load_currencies ext (self\<lparr>p_client := c\<rparr>)")
  from load_currencies_frame [of "self\<lparr>p_client := c\<rparr>" ext]
  have pi: "p_instruments self1 = p_instruments self" and pc: "p_client self1 = c"
    by (simp_all add: lc)
  from assms show ?thesis
    by (auto simp: load_all_def lc load_instruments_def pi pc split: option.splits prod.splits)
qed

text \<open>
  C6. Over any sequence of loads (successful or not) the set of cached symbol codes and
  the set of cached currency codes only grow. After a successful load every market of
  the reloaded set is cached under its code as the instrument just built from it, so an
  entry cached before under that code has been overwritten; and every symbol code that
  the reloaded set omits still answers \<^verbatim>\<open>get\<close> as before the load.
\<close>

theorem reload_never_evicts:
  "instrument_keys h self
     \<subseteq> instrument_keys (fst (load_all_seq ext loads h self)) (snd (load_all_seq ext loads h self))
   \<and> currency_keys self \<subseteq> currency_keys (snd (load_all_seq ext loads h self))
   \<and> (load_all ext clock (Inr c) h self = (None, h', self') \<and> distinct (map fst (c_markets c)) \<longrightarrow>
        (\<forall>j<length (c_markets c).
           map_option Inr (get h' self' \<lparr>s_code = fst (c_markets c ! j), s_venue = p_venue self\<rparr>)
           = Some (parse_market ext (snd (load_currencies ext (self\<lparr>p_client := c\<rparr>)))
                     \<lparr>s_code = fst (c_markets c ! j), s_venue = p_venue self\<rparr>
                     (snd (c_markets c ! j)) (clock j)))
      \<and> (\<forall>symbol. s_code symbol \<notin> fst ` set (c_markets c) \<longrightarrow>
           get h' self' symbol = get h self symbol))"
proof (intro conjI impI allI)
  show "instrument_keys h self
     \<subseteq> instrument_keys (fst (load_all_seq ext loads h self)) (snd (load_all_seq ext loads h self))"
    using load_all_seq_keys_grow by blast
  show "currency_keys self \<subseteq> currency_keys (snd (load_all_seq ext loads h self))"
    using load_all_seq_keys_grow by blast
next
  fix j
  assume a: "load_all ext clock (Inr c) h self = (None, h', self') \<and> distinct (map fst (c_markets c))"
    and j: "j < length (c_markets c)"
  let ?self1 = "snd (load_currencies ext (self\<lparr>p_client := c\<rparr>))"
  from a load_all_success
  have h': "h' = snd (load_instruments_loop ext ?self1 clock 0 (c_markets c) h)"
    and ok: "fst (load_instruments_loop ext ?self1 clock 0 (c_markets c) h) = None"
    and pi: "p_instruments self' = p_instruments self"
    by blast+
  from load_currencies_frame [of "self\<lparr>p_client := c\<rparr>" ext]
  have pi1: "p_instruments ?self1 = p_instruments self" and pv: "p_venue ?self1 = p_venue self"
    by simp_all
  from a have dist: "distinct (map fst (c_markets c))" by simp
  from loop_lookup_built [OF dist ok j]
  show "map_option Inr (get h' self' \<lparr>s_code = fst (c_markets c ! j), s_venue = p_venue self\<rparr>)
           = Some (parse_market ext ?self1
                     \<lparr>s_code = fst (c_markets c ! j), s_venue = p_venue self\<rparr>
                     (snd (c_markets c ! j)) (clock j))"
    by (simp add: get_def h' pi pi1 pv)
next
  fix symbol :: symbol
  assume a: "load_all ext clock (Inr c) h self = (None, h', self') \<and> distinct (map fst (c_markets c))"
    and k: "s_code symbol \<notin> fst ` set (c_markets c)"
  let ?self1 = "snd (load_currencies ext (self\<lparr>p_client := c\<rparr>))"
  from a load_all_success
  have h': "h' = snd (load_instruments_loop ext ?self1 clock 0 (c_markets c) h)"
    and pi: "p_instruments self' = p_instruments self"
    by blast+
  from load_currencies_frame [of "self\<lparr>p_client := c\<rparr>" ext]
  have pi1: "p_instruments ?self1 = p_instruments self"
    by simp
  from loop_lookup_other [OF k, of ext ?self1 clock 0 h]
  show "get h' self' symbol = get h self symbol"
    by (simp add: get_def h' pi pi1)
qed

lemma parse_instrument_same_client:
  assumes "c_precisionMode (p_client s1) = c_precisionMode (p_client s2)"
    and "c_name (p_client s1) = c_name (p_client s2)"
    and "p_currencies s1 = p_currencies s2"
  shows "parse_instrument ext s1 symbol values now = parse_instrument ext s2 symbol values now"
  unfolding parse_instrument_def parse_precisions_def by (simp only: assms)

lemma example_currency:
  "parse_currency example_externals 4 ''USDT'' (PDict [(''precision'', PFloat (Finite (1 / 4)))])
   = Inr usdt"
  by (simp add: parse_currency_def typed_dict_def dict_item_def as_double_def get_precision_def
      tick_examples parse_currency_type_def example_externals_def usdt_def)

lemma example_reload_currencies:
  "load_currencies example_externals (example_provider\<lparr>p_client := reloaded_client\<rparr>)
   = (None, example_provider\<lparr>p_client := reloaded_client\<rparr>)"
  by (simp add: load_currencies_def as_c_int_def reloaded_client_def example_client_def
      example_currency example_provider_def)

lemma example_reload:
  "load_all example_externals example_clock (Inr reloaded_client) example_store example_provider
   = (None,
      set_instrument example_provider ''BTC/USDT''
        (projr (parse_instrument example_externals example_provider example_symbol market_min 7))
        example_store,
      example_provider\<lparr>p_client := reloaded_client, p_count := 2\<rparr>)"
proof -
  have same: "parse_instrument example_externals (example_provider\<lparr>p_client := reloaded_client\<rparr>)
                example_symbol market_min 7
              = parse_instrument example_externals example_provider example_symbol market_min 7"
    by (rule parse_instrument_same_client)
       (simp_all add: reloaded_client_def example_provider_def)
  have built: "parse_market example_externals (example_provider\<lparr>p_client := reloaded_client\<rparr>)
       \<lparr>s_code = ''BTC/USDT'', s_venue = p_venue example_provider\<rparr>
       (PDict market_min) (example_clock 0)
     = Inr (projr (parse_instrument example_externals example_provider example_symbol market_min 7))"
    using parse_market_min same
    by (simp add: parse_market_def typed_dict_def example_symbol_def example_provider_simps
        example_clock_def)
  have loop: "load_instruments_loop example_externals (example_provider\<lparr>p_client := reloaded_client\<rparr>)
       example_clock 0 [(''BTC/USDT'', PDict market_min)] example_store
     = (None, set_instrument example_provider ''BTC/USDT''
        (projr (parse_instrument example_externals example_provider example_symbol market_min 7))
        example_store)"
    by (simp add: loop_Cons built set_instrument_def)
  have markets: "c_markets reloaded_client = [(''BTC/USDT'', PDict market_min)]"
    by (simp add: reloaded_client_def)
  show ?thesis
    by (simp add: load_all_def example_reload_currencies load_instruments_def markets loop,
        simp add: set_instrument_def example_store_def example_provider_simps)
qed

theorem reload_never_evicts_witness:
  "fst (load_all example_externals example_clock (Inr reloaded_client) example_store example_provider)
     = None
   \<and> distinct (map fst (c_markets reloaded_client))
   \<and> get (fst (snd (load_all example_externals example_clock (Inr reloaded_client) example_store
                      example_provider)))
         (snd (snd (load_all example_externals example_clock (Inr reloaded_client) example_store
                      example_provider)))
         \<lparr>s_code = ''LTC/USDT'', s_venue = ''BINANCE''\<rparr>
     = Some old_instrument
   \<and> get (fst (snd (load_all example_externals example_clock (Inr reloaded_client) example_store
                      example_provider)))
         (snd (snd (load_all example_externals example_clock (Inr reloaded_client) example_store
                      example_provider)))
         example_symbol
     \<noteq> get example_store example_provider example_symbol
   \<and> instrument_keys example_store example_provider
     \<subseteq> instrument_keys
         (fst (load_all_seq example_externals [(example_clock, Inr reloaded_client)] example_store
                 example_provider))
         (snd (load_all_seq example_externals [(example_clock, Inr reloaded_client)] example_store
                 example_provider))"
proof -
  let ?h' = "set_instrument example_provider ''BTC/USDT''
        (projr (parse_instrument example_externals example_provider example_symbol market_min 7))
        example_store"
  let ?self' = "example_provider\<lparr>p_client := reloaded_client, p_count := 2\<rparr>"
  have dist: "distinct (map fst (c_markets reloaded_client))"
    by (simp add: reloaded_client_def)
  have ltc: "s_code \<lparr>s_code = ''LTC/USDT'', s_venue = ''BINANCE''\<rparr>
             \<notin> fst ` set (c_markets reloaded_client)"
    by (simp add: reloaded_client_def)
  have old: "get example_store example_provider \<lparr>s_code = ''LTC/USDT'', s_venue = ''BINANCE''\<rparr>
             = Some old_instrument"
    "get example_store example_provider example_symbol = Some old_instrument"
    by (simp_all add: get_def example_store_def example_provider_simps example_symbol_def)
  have new: "get ?h' ?self' example_symbol
             = Some (projr (parse_instrument example_externals example_provider example_symbol
                              market_min 7))"
    by (simp add: get_def set_instrument_def example_store_def example_provider_simps
        example_symbol_def)
  note fact = reload_never_evicts
    [of example_store example_provider example_externals "[(example_clock, Inr reloaded_client)]"
        example_clock reloaded_client ?h' ?self']
  from fact example_reload dist ltc have "get ?h' ?self' \<lparr>s_code = ''LTC/USDT'', s_venue = ''BINANCE''\<rparr>
             = get example_store example_provider \<lparr>s_code = ''LTC/USDT'', s_venue = ''BINANCE''\<rparr>"
    by blast
  moreover from fact have "instrument_keys example_store example_provider
     \<subseteq> instrument_keys
         (fst (load_all_seq example_externals [(example_clock, Inr reloaded_client)] example_store
                 example_provider))
         (snd (load_all_seq example_externals [(example_clock, Inr reloaded_client)] example_store
                 example_provider))"
    by blast
  ultimately show ?thesis
    using old new dist rebuilt_differs_from_old by (simp add: example_reload)
qed

subsection \<open>Rounding to a double\<close>

lemma pow2_power_int: "pow2 e = power_int 2 e"
  by (simp add: pow2_def power_int_def inverse_eq_divide power_divide)

lemma pow2_pos: "0 < pow2 e"
  by (simp add: pow2_power_int)

lemma pow2_add: "pow2 (a + b) = pow2 a * pow2 b"
  by (simp add: pow2_power_int power_int_add)

lemma pow2_diff: "pow2 (a - b) = pow2 a / pow2 b"
  by (simp add: pow2_power_int power_int_diff)

lemma pow2_nat: "pow2 (int n) = 2 ^ n"
  by (simp add: pow2_def)

lemma pow2_mono: "a \<le> b \<Longrightarrow> pow2 a \<le> pow2 b"
  by (simp add: pow2_power_int power_int_increasing)

lemma round_half_even_error: "\<bar>of_int (round_half_even q) - q\<bar> \<le> 1 / 2"
proof -
  have "of_int \<lfloor>q\<rfloor> \<le> q" "q < of_int \<lfloor>q\<rfloor> + 1"
    by linarith+
  then show ?thesis
    by (auto simp: round_half_even_def Let_def abs_le_iff)
qed

lemma round_half_even_near_one:
  assumes "\<bar>q - 1\<bar> < 1 / 2"
  shows "round_half_even q = 1"
proof (cases "q < 1")
  case True
  with assms have "\<lfloor>q\<rfloor> = 0" by (intro floor_unique) auto
  with assms True show ?thesis
    by (auto simp: round_half_even_def Let_def)
next
  case False
  with assms have "\<lfloor>q\<rfloor> = 1" by (intro floor_unique) auto
  with assms False show ?thesis
    by (auto simp: round_half_even_def Let_def)
qed

lemma ilog2_le:
  assumes "0 < q"
  shows "pow2 (ilog2 q) \<le> q"
proof -
  obtain a b where ab: "quotient_of q = (a, b)" by (cases "quotient_of q")
  then have b: "0 < b" and q: "q = of_int a / of_int b"
    by (simp_all add: quotient_of_denom_pos quotient_of_div)
  with assms have a: "0 < a"
    by (simp add: zero_less_divide_iff)
  let ?e0 = "bitlen a - bitlen b"
  show ?thesis
  proof (cases "q < pow2 ?e0")
    case False
    then show ?thesis by (simp add: ilog2_def ab)
  next
    case True
    from bitlen_bounds [OF a] have la: "2 ^ nat (bitlen a - 1) \<le> a" by simp
    from bitlen_bounds [OF b] have lb: "b < 2 ^ nat (bitlen b)" by simp
    have la1: "1 \<le> bitlen a" using a by (simp add: bitlen_alt_def)
    have lb0: "0 \<le> bitlen b" by (rule bitlen_nonneg)
    have "pow2 (?e0 - 1) = pow2 (bitlen a - 1) / pow2 (bitlen b)"
      by (simp add: pow2_diff [symmetric] algebra_simps)
    also have "\<dots> = 2 ^ nat (bitlen a - 1) / 2 ^ nat (bitlen b)"
      using la1 lb0 by (simp add: pow2_def)
    also have "\<dots> \<le> of_int a / of_int b"
    proof -
      from la have "(of_int (2 ^ nat (bitlen a - 1)) :: rat) \<le> of_int a"
        by (simp only: of_int_le_iff)
      then have 1: "(2::rat) ^ nat (bitlen a - 1) \<le> of_int a" by simp
      from lb have "(of_int b :: rat) \<le> of_int (2 ^ nat (bitlen b))"
        by (simp only: of_int_le_iff)
      then have 2: "(of_int b :: rat) \<le> 2 ^ nat (bitlen b)" by simp
      have 3: "(0::rat) < of_int b" using b by simp
      have 4: "(0::rat) \<le> of_int a" using a by simp
      show ?thesis
        using 1 2 3 4 by (intro frac_le) simp_all
    qed
    also have "\<dots> = q" by (simp add: q)
    finally show ?thesis
      using True by (simp add: ilog2_def ab)
  qed
qed

lemma round_double_error:
  assumes "0 < q"
  shows "\<bar>round_double q - q\<bar> \<le> max (q / 2 ^ 53) (1 / 2 ^ 1075)"
proof -
  define e where "e = max (ilog2 q) (- 1022)"
  define u where "u = pow2 (e - 52)"
  have u: "0 < u" by (simp add: u_def pow2_pos)
  have rd: "round_double q = of_int (round_half_even (q / u)) * u"
    using assms by (simp add: round_double_def Let_def e_def u_def)
  have "round_double q - q = (of_int (round_half_even (q / u)) - q / u) * u"
    using u by (simp add: rd field_simps)
  then have "\<bar>round_double q - q\<bar> = \<bar>of_int (round_half_even (q / u)) - q / u\<bar> * u"
    using u by (simp add: abs_mult)
  also have "\<dots> \<le> (1 / 2) * u"
    using u round_half_even_error [of "q / u"] by (intro mult_right_mono) simp_all
  also have "\<dots> = pow2 (e - 53)"
    using pow2_add [of "e - 53" 1] by (simp add: u_def pow2_def)
  also have "\<dots> \<le> max (q / 2 ^ 53) (1 / 2 ^ 1075)"
  proof (cases "- 1022 \<le> ilog2 q")
    case True
    then have "pow2 (e - 53) = pow2 (ilog2 q) / 2 ^ 53"
      using pow2_diff [of "ilog2 q" 53] by (simp add: e_def pow2_def max_def)
    also have "\<dots> \<le> q / 2 ^ 53"
      using ilog2_le [OF assms] by (simp add: divide_right_mono)
    finally show ?thesis by simp
  next
    case False
    then have "pow2 (e - 53) = 1 / 2 ^ 1075"
      by (simp add: e_def pow2_def)
    then show ?thesis by simp
  qed
  finally show ?thesis .
qed

lemma big_constants:
  "(10::rat) ^ 308 * (1 + 1 / 2 ^ 53) < 2 ^ 1024"
  "(10::rat) ^ 308 / 2 ^ 1075 \<le> 1 / 16"
  "(2::rat) ^ 1024 \<le> 10 ^ 309 * (15 / 16)"
  "(1::rat) / 2 ^ 1075 \<le> 1 / 2 ^ 53"
  "(1::rat) / 2 ^ 53 \<le> 1 / 16"
  by simp_all

lemma relative_error_bounds:
  fixes y A d :: rat
  assumes "\<bar>y - A\<bar> \<le> A * d" and "d \<le> 1 / 16" and "0 < A"
  shows "15 / 16 * A \<le> y" and "y \<le> 17 / 16 * A" and "y \<le> A * (1 + d)"
proof -
  from assms(2,3) have "A * d \<le> A * (1 / 16)"
    by (intro mult_left_mono) simp_all
  with assms(1) have "\<bar>y - A\<bar> \<le> A / 16" by simp
  then show "15 / 16 * A \<le> y" and "y \<le> 17 / 16 * A"
    by linarith+
  have "A * (1 + d) = A + A * d" by (simp add: algebra_simps)
  with assms(1) show "y \<le> A * (1 + d)"
    by linarith
qed

lemma quotient_bounds:
  fixes y A :: rat
  assumes "15 / 16 * A \<le> y" and "y \<le> 17 / 16 * A" and "0 < A"
  shows "0 < y" and "A / y \<le> 16 / 15" and "16 / 17 \<le> A / y"
proof -
  from assms(1,3) show y: "0 < y" by linarith
  from assms(1) y show "A / y \<le> 16 / 15"
    by (simp add: field_simps)
  from assms(2) y show "16 / 17 \<le> A / y"
    by (simp add: field_simps)
qed

lemma near_one:
  fixes z a :: rat
  assumes "\<bar>z - a\<bar> \<le> 1 / 16" and "16 / 17 \<le> a" and "a \<le> 16 / 15"
  shows "\<bar>z - 1\<bar> < 1 / 2"
  using assms by linarith

lemma reciprocal_of_power_of_ten:
  fixes p :: nat
  assumes "p \<le> 308"
  defines "y \<equiv> round_double (10 ^ p)"
  defines "x \<equiv> round_double (1 / y)"
  shows "0 < y" and "y < 2 ^ 1024" and "0 < x" and "\<bar>x * 10 ^ p - 1\<bar> < 1 / 2"
proof -
  define A :: rat where "A = 10 ^ p"
  define d :: rat where "d = 1 / 2 ^ 53"
  define t :: rat where "t = 1 / 2 ^ 1075"
  have A1: "1 \<le> A" by (simp add: A_def)
  then have A0: "0 < A" by linarith
  have A308: "A \<le> 10 ^ 308"
    unfolding A_def using assms(1) by (intro power_increasing) simp_all
  have d16: "d \<le> 1 / 16" and d0: "0 \<le> d" and td: "t \<le> d"
    unfolding d_def t_def by simp_all
  have "\<bar>y - A\<bar> \<le> max (A / 2 ^ 53) (1 / 2 ^ 1075)"
    unfolding y_def A_def by (rule round_double_error) simp
  also have "\<dots> = max (A * d) t"
    by (simp add: d_def t_def)
  also have "\<dots> = A * d"
  proof -
    have "t \<le> 1 * d" using td by simp
    also have "\<dots> \<le> A * d" using A1 d0 by (intro mult_right_mono)
    finally show ?thesis by simp
  qed
  finally have ey: "\<bar>y - A\<bar> \<le> A * d" .
  note yb = relative_error_bounds [OF ey d16 A0]
  note qb = quotient_bounds [OF yb(1) yb(2) A0]
  show y0: "0 < y" by (rule qb(1))
  have "y \<le> A * (1 + d)" by (rule yb(3))
  also have "\<dots> \<le> 10 ^ 308 * (1 + d)"
    using A308 d0 by (intro mult_right_mono) simp_all
  also have "\<dots> < 2 ^ 1024"
    unfolding d_def by (rule big_constants)
  finally show "y < 2 ^ 1024" .
  define a where "a = A / y"
  have "\<bar>x - 1 / y\<bar> \<le> max (1 / y / 2 ^ 53) (1 / 2 ^ 1075)"
    unfolding x_def using y0 by (intro round_double_error) simp
  also have "\<dots> = max (1 / y * d) t"
    by (simp add: d_def t_def)
  finally have ex: "\<bar>x - 1 / y\<bar> \<le> max (1 / y * d) t" .
  have "\<bar>x * A - a\<bar> = \<bar>x - 1 / y\<bar> * A"
  proof -
    have "x * A - a = (x - 1 / y) * A"
      by (simp add: a_def algebra_simps)
    then have "\<bar>x * A - a\<bar> = \<bar>x - 1 / y\<bar> * \<bar>A\<bar>"
      by (simp only: abs_mult)
    with A0 show ?thesis by simp
  qed
  also have "\<dots> \<le> max (1 / y * d) t * A"
    using ex A0 by (intro mult_right_mono) simp_all
  also have "\<dots> \<le> 1 / 16"
  proof -
    have "1 / y * d * A = a * d"
      by (simp add: a_def)
    also have "\<dots> \<le> 16 / 15 * d"
      using qb(2) d0 unfolding a_def by (intro mult_right_mono)
    also have "\<dots> \<le> 1 / 16"
      unfolding d_def by simp
    finally have 1: "1 / y * d * A \<le> 1 / 16" .
    have "t * A \<le> t * 10 ^ 308"
      using A308 unfolding t_def by (intro mult_left_mono) simp_all
    also have "\<dots> \<le> 1 / 16"
      unfolding t_def using big_constants(2) by simp
    finally have 2: "t * A \<le> 1 / 16" .
    show ?thesis
    proof (cases "1 / y * d \<le> t")
      case True
      then show ?thesis using 2 by (simp add: max_def)
    next
      case False
      then show ?thesis using 1 by (simp add: max_def)
    qed
  qed
  finally have near: "\<bar>x * A - a\<bar> \<le> 1 / 16" .
  from near_one [OF near] qb(3) qb(2) have z: "\<bar>x * A - 1\<bar> < 1 / 2"
    by (simp add: a_def)
  then show "\<bar>x * 10 ^ p - 1\<bar> < 1 / 2"
    by (simp add: A_def)
  from z have "0 < x * A" by linarith
  with A0 show "0 < x" by (simp add: zero_less_mult_iff)
qed

lemma digit_char_simps:
  "digit_char 0 = CHR ''0''" "digit_char (Suc 0) = CHR ''1''"
  by (simp_all add: digit_char_def char_of_def bit_iff_odd_drop_bit)

lemma format_fixed_one:
  assumes "1 \<le> p" and "round_half_even (\<bar>x\<bar> * 10 ^ p) = 1" and "0 \<le> x"
  shows "format_fixed x p = ''0.'' @ zeros (p - 1) @ ''1''"
proof -
  from assms(1) have "(1::int) < 10 ^ p"
    by (intro one_less_power) simp_all
  then have dm: "(1::int) div 10 ^ p = 0" "(1::int) mod 10 ^ p = 1"
    by simp_all
  have dd: "dec_digits 0 = [0]" "dec_digits 1 = [Suc 0]"
    by simp_all
  have "format_fixed x p
        = map digit_char (dec_digits 0) @ ''.'' @ zeros (p - length (map digit_char (dec_digits 1)))
          @ map digit_char (dec_digits 1)"
    using assms(1,3) unfolding format_fixed_def Let_def assms(2) dm by simp
  also have "\<dots> = ''0.'' @ zeros (p - 1) @ ''1''"
    unfolding dd by (simp add: digit_char_simps)
  finally show ?thesis .
qed

lemma tick_size_text_exact:
  fixes p :: int
  assumes "1 \<le> p" "p \<le> 308"
  shows "tick_size_text ext (PInt p) = Inr (''0.'' @ zeros (nat p - 1) @ ''1'')"
proof -
  from assms have n: "nat p \<le> 308" "1 \<le> nat p" by simp_all
  note r = reciprocal_of_power_of_ten [OF n(1)]
  have "\<bar>round_double (10 ^ nat p)\<bar> < 2 ^ 1024"
    using r(1,2) by simp
  then have y: "long_as_double (10 ^ nat p) = Inr (round_double (10 ^ nat p))"
    by (simp add: long_as_double_def Let_def double_max_bound_def)
  have "round_half_even (\<bar>round_double (1 / round_double (10 ^ nat p))\<bar> * 10 ^ nat p) = 1"
    using r(3) round_half_even_near_one [OF r(4)] by simp
  then have "format_fixed (round_double (1 / round_double (10 ^ nat p))) (nat p)
             = ''0.'' @ zeros (nat p - 1) @ ''1''"
    using r(3) n(2) by (intro format_fixed_one) simp_all
  then show ?thesis
    using assms y by (simp add: tick_size_text_def)
qed

lemma tick_size_text_overflow: "tick_size_text ext (PInt 309) = Inl OverflowError"
proof -
  define B :: rat where "B = 10 ^ 309"
  have B0: "0 < B" by (simp add: B_def)
  have "\<bar>round_double B - B\<bar> \<le> max (B / 2 ^ 53) (1 / 2 ^ 1075)"
    using B0 by (rule round_double_error)
  also have "\<dots> \<le> B * (1 / 16)"
    unfolding B_def by simp
  finally have "\<bar>round_double B - B\<bar> \<le> B * (1 / 16)" .
  from relative_error_bounds(1) [OF this _ B0] have "15 / 16 * B \<le> round_double B"
    by simp
  moreover have "(2::rat) ^ 1024 \<le> 15 / 16 * B"
    unfolding B_def by simp
  ultimately have "(2::rat) ^ 1024 \<le> round_double B" by linarith
  then have "double_max_bound \<le> \<bar>round_double (rat_of_int (10 ^ 309))\<bar>"
    by (simp add: double_max_bound_def B_def)
  then have "long_as_double (10 ^ 309) = Inl OverflowError"
    by (simp only: long_as_double_def Let_def if_True)
  then show ?thesis
    by (simp add: tick_size_text_def)
qed

subsection \<open>The tick size under DECIMAL_PLACES\<close>

lemma tick_size_text_overflows:
  fixes p :: int
  assumes "309 \<le> p"
  shows "tick_size_text ext (PInt p) = Inl OverflowError"
proof -
  define B :: rat where "B = 10 ^ nat p"
  from assms have "(10::rat) ^ 309 \<le> 10 ^ nat p"
    by (intro power_increasing) simp_all
  then have B309: "10 ^ 309 \<le> B" by (simp add: B_def)
  then have B0: "0 < B" by (simp add: B_def)
  then have B1: "1 \<le> B" by (simp add: B_def)
  have "\<bar>round_double B - B\<bar> \<le> max (B / 2 ^ 53) (1 / 2 ^ 1075)"
    using B0 by (rule round_double_error)
  also have "\<dots> \<le> B * (1 / 16)"
  proof -
    have "B / 2 ^ 53 \<le> B * (1 / 16)"
      using B0 by simp
    moreover have "(1::rat) / 2 ^ 1075 \<le> 1 * (1 / 16)"
      by simp
    moreover have "(1::rat) * (1 / 16) \<le> B * (1 / 16)"
      using B1 by (intro mult_right_mono) simp_all
    ultimately show ?thesis by simp
  qed
  finally have "\<bar>round_double B - B\<bar> \<le> B * (1 / 16)" .
  from relative_error_bounds(1) [OF this _ B0] have "15 / 16 * B \<le> round_double B"
    by simp
  moreover have "(2::rat) ^ 1024 \<le> 15 / 16 * 10 ^ 309"
    by simp
  moreover have "(15::rat) / 16 * 10 ^ 309 \<le> 15 / 16 * B"
    using B309 by (intro mult_left_mono) simp_all
  ultimately have "(2::rat) ^ 1024 \<le> round_double B" by linarith
  then have "double_max_bound \<le> \<bar>round_double (rat_of_int (10 ^ nat p))\<bar>"
    by (simp add: double_max_bound_def B_def)
  then have "long_as_double (10 ^ nat p) = Inl OverflowError"
    by (simp only: long_as_double_def Let_def if_True)
  then show ?thesis
    using assms by (simp add: tick_size_text_def)
qed

lemma parse_precisions_decimal_places:
  assumes "c_precisionMode c = 2"
    and "map_of values ''precision'' = Some (PDict d)"
  shows "parse_precisions ext c values
         = bind_err (tick_size_text ext (dict_get d ''price''))
             (\<lambda>txt. Inr (dict_get d ''price'', dict_get_default d ''amount'' (PInt 8),
                          Decimal_of_str txt))"
  using assms by (simp add: parse_precisions_def dict_item_def typed_dict_def Let_def)

lemma parse_instrument_tick_size:
  assumes "parse_instrument ext self symbol values now = Inr inst"
  shows "\<exists>pp sp. parse_precisions ext (p_client self) values = Inr (pp, sp, i_tick_size inst)"
  using assms unfolding parse_instrument_def by (auto simp: bind_err_eq_Inr)

lemma parse_instrument_precision_error:
  assumes "parse_precisions ext (p_client self) values = Inl e"
  shows "parse_instrument ext self symbol values now = Inl e"
  using assms by (simp add: parse_instrument_def)

text \<open>
  C2, as stated, fails for large precisions: with 309 decimal places the integer
  \<open>10 ^ 309\<close> is beyond the doubles, \<^verbatim>\<open>1.0 / 10 ** 309\<close> raises \<^verbatim>\<open>OverflowError\<close>
  and no tick size is produced.
\<close>

theorem tick_size_overflow_counterexample:
  "parse_instrument example_externals decimal_places_provider example_symbol (market_places 309) 7
   = Inl OverflowError"
proof -
  have "parse_precisions example_externals (p_client decimal_places_provider) (market_places 309)
        = Inl OverflowError"
    by (subst parse_precisions_decimal_places [where d = "[(''price'', PInt 309), (''amount'', PInt 0)]"])
       (simp_all add: decimal_places_provider_def market_places_def dict_get_def
          tick_size_text_overflows)
  then show ?thesis
    by (rule parse_instrument_precision_error)
qed

text \<open>
  C2, amended. Under DECIMAL_PLACES with an integer price precision \<open>p\<close>: for
  \<open>1 \<le> p \<le> 308\<close> the text the tick size is made of is exactly \<^verbatim>\<open>0.\<close>, then \<open>p - 1\<close>
  zeros, then \<^verbatim>\<open>1\<close> (the two roundings of the float division and the rounding of the
  formatting never reach the last digit); for \<open>p \<ge> 309\<close> the build raises
  \<^verbatim>\<open>OverflowError\<close>.
\<close>

theorem decimal_places_tick_size_exact:
  assumes "c_precisionMode (p_client self) = 2"
    and "map_of values ''precision'' = Some (PDict d)"
    and "dict_get d ''price'' = PInt p"
    and "1 \<le> p"
  shows "(p \<le> 308 \<longrightarrow>
            tick_size_text ext (PInt p) = Inr (''0.'' @ zeros (nat p - 1) @ ''1'')
          \<and> parse_precisions ext (p_client self) values
              = Inr (PInt p, dict_get_default d ''amount'' (PInt 8),
                     Decimal_of_str (''0.'' @ zeros (nat p - 1) @ ''1''))
          \<and> (\<forall>inst. parse_instrument ext self symbol values now = Inr inst \<longrightarrow>
                i_tick_size inst = Decimal_of_str (''0.'' @ zeros (nat p - 1) @ ''1'')))
       \<and> (309 \<le> p \<longrightarrow> parse_instrument ext self symbol values now = Inl OverflowError)"
proof (intro conjI impI allI)
  assume le: "p \<le> 308"
  show t: "tick_size_text ext (PInt p) = Inr (''0.'' @ zeros (nat p - 1) @ ''1'')"
    using assms(4) le by (rule tick_size_text_exact)
  show pp: "parse_precisions ext (p_client self) values
              = Inr (PInt p, dict_get_default d ''amount'' (PInt 8),
                     Decimal_of_str (''0.'' @ zeros (nat p - 1) @ ''1''))"
    by (simp add: parse_precisions_decimal_places [OF assms(1,2)] assms(3) t)
  fix inst
  assume "parse_instrument ext self symbol values now = Inr inst"
  from parse_instrument_tick_size [OF this] pp
  show "i_tick_size inst = Decimal_of_str (''0.'' @ zeros (nat p - 1) @ ''1'')"
    by simp
next
  assume "309 \<le> p"
  then have "parse_precisions ext (p_client self) values = Inl OverflowError"
    by (simp add: parse_precisions_decimal_places [OF assms(1,2)] assms(3)
        tick_size_text_overflows)
  then show "parse_instrument ext self symbol values now = Inl OverflowError"
    by (rule parse_instrument_precision_error)
qed

lemma decimal_places_example:
  "c_precisionMode (p_client decimal_places_provider) = 2"
  "map_of (market_places 2) ''precision'' = Some (PDict [(''price'', PInt 2), (''amount'', PInt 0)])"
  "dict_get [(''price'', PInt 2), (''amount'', PInt 0)] ''price'' = PInt 2"
  by (simp_all add: decimal_places_provider_def market_places_def dict_get_def)

theorem decimal_places_tick_size_exact_witness:
  "parse_precisions example_externals (p_client decimal_places_provider) (market_places 2)
   = Inr (PInt 2, PInt 0, Decimal_of_str ''0.01'')"
  using decimal_places_tick_size_exact
    [OF decimal_places_example, of example_externals example_symbol 7]
  by (simp add: zeros_def dict_get_default_def)

subsection \<open>A load with a currency precision beyond the C int range\<close>

text \<open>
  The cast in \<^verbatim>\<open>_get_precision\<close> raises nothing: the currency is cached with the
  smallest C \<^verbatim>\<open>int\<close> as its precision and the load goes on to build the market.
\<close>

lemma parse_currency_wide_precision:
  "parse_currency ext 2 code (PDict [(''precision'', PInt 3000000000)])
   = Inr \<lparr> cur_code = code, cur_precision = - 2147483648,
           cur_type = parse_currency_type ext code \<rparr>"
proof -
  have d: "as_double (PInt 3000000000) = Inr (Finite 3000000000)"
    by code_simp
  show ?thesis
    by (simp add: parse_currency_def typed_dict_def dict_item_def d get_precision_def
        double_to_c_int_def)
qed

lemma wide_precision_load_completes:
  "fst (load_all example_externals example_clock (Inr wide_precision_client) example_store
          example_provider) = None
   \<and> currency (snd (snd (load_all example_externals example_clock (Inr wide_precision_client)
          example_store example_provider))) ''USDT''
     = Some \<lparr> cur_code = ''USDT'', cur_precision = - 2147483648, cur_type = CRYPTO \<rparr>"
proof -
  let ?cur = "\<lparr> cur_code = ''USDT'', cur_precision = - 2147483648, cur_type = CRYPTO \<rparr>"
  let ?self = "example_provider\<lparr>p_client := wide_precision_client,
                 p_currencies := [(''USDT'', ?cur)]\<rparr>"
  have lc: "load_currencies example_externals (example_provider\<lparr>p_client := wide_precision_client\<rparr>)
            = (None, ?self)"
    by (simp add: load_currencies_def as_c_int_def wide_precision_client_def
        parse_currency_wide_precision parse_currency_type_def example_externals_def
        example_provider_def)
  have pc: "p_client ?self = wide_precision_client"
    by simp
  have mode: "c_precisionMode wide_precision_client = 2"
    and prec: "map_of (market_places 2) ''precision''
               = Some (PDict [(''price'', PInt 2), (''amount'', PInt 0)])"
    and price: "dict_get [(''price'', PInt 2), (''amount'', PInt 0)] ''price'' = PInt 2"
    by (simp_all add: wide_precision_client_def market_places_def dict_get_def)
  have pp: "parse_precisions example_externals wide_precision_client (market_places 2)
            = Inr (PInt 2, PInt 0, Decimal_of_str ''0.01'')"
    unfolding parse_precisions_decimal_places [OF mode prec] price
    by (simp add: tick_size_text_exact zeros_def dict_get_default_def)
  have "succeeds (parse_instrument example_externals ?self
          \<lparr>s_code = ''BTC/USDT'', s_venue = p_venue ?self\<rparr> (market_places 2) (example_clock 0))"
    unfolding parse_instrument_def pc pp
    by (simp add: succeeds_def market_places_def example_limits_def example_provider_def
        example_externals_simps step_defs)
  then have "succeeds (parse_market example_externals ?self
          \<lparr>s_code = ''BTC/USDT'', s_venue = p_venue ?self\<rparr> (PDict (market_places 2))
          (example_clock 0))"
    by (simp add: parse_market_def typed_dict_def)
  then have "\<forall>j<length [(''BTC/USDT'', PDict (market_places 2))].
      succeeds (parse_market example_externals ?self
        \<lparr>s_code = fst ([(''BTC/USDT'', PDict (market_places 2))] ! j), s_venue = p_venue ?self\<rparr>
        (snd ([(''BTC/USDT'', PDict (market_places 2))] ! j)) (example_clock (0 + j)))"
    by simp
  from loop_success [OF this]
  have loop: "fst (load_instruments_loop example_externals ?self example_clock 0
                    [(''BTC/USDT'', PDict (market_places 2))] example_store) = None" .
  have markets: "c_markets wide_precision_client = [(''BTC/USDT'', PDict (market_places 2))]"
    by (simp add: wide_precision_client_def)
  obtain h' where l: "load_instruments_loop example_externals ?self example_clock 0
                    [(''BTC/USDT'', PDict (market_places 2))] example_store = (None, h')"
    using loop by (cases "load_instruments_loop example_externals ?self example_clock 0
                    [(''BTC/USDT'', PDict (market_places 2))] example_store") simp
  show ?thesis
    by (simp add: load_all_def lc load_instruments_def markets l currency_def)
qed

end
